theory Spec2Isabelle
  imports Main "HOL-Library.Word" "HOL-Library.AList"
begin

section \<open>JavaScript values and the object store\<close>

text \<open>
  The client library is JavaScript. Its functions read and write properties of objects,
  some of which are shared between caller and callee (the header mapping handed to
  \<open>attachAuthTokenToHeader\<close>, the module constant \<open>CONNECTION_ERROR\<close>, the
  response body that \<open>makeRequest\<close> annotates with \<open>errorCode\<close>). Objects therefore
  live in a store and a value refers to one by its address; two references are the same
  object exactly when the addresses are equal.

  A string is a sequence of UTF-16 code units, which is what \<open>split\<close> and the regular
  expression \<open>/\s/\<close> work on. Numbers are modelled as integers: the numbers of this
  library are limits, offsets, post identifiers and HTTP status codes.
\<close>

type_synonym jsstring = "16 word list"
type_synonym bytes = "8 word list"
type_synonym addr = nat

definition js :: "string \<Rightarrow> jsstring" where
  "js s = map of_char s"

datatype jsval =
    Undefined
  | Null
  | Bool bool
  | Num int
  | Str jsstring
  | Ref addr

text \<open>What a readable stream will emit once it flows: chunks of data, then \<open>end\<close>.\<close>

datatype stream_event = Data bytes | End

text \<open>An entry of a multipart form: the value and the options given to \<open>append\<close>.\<close>

datatype form_value = Text jsstring | Bytes bytes | BlobPart jsval

record append_options =
  knownLength :: nat
  contentType :: jsstring
  filename :: jsval
  header :: "(string \<times> jsstring) list"

type_synonym form_entry = "string \<times> form_value \<times> append_options option"

text \<open>
  The kind of an object is what \<open>instanceof\<close> tests, together with the contents that
  are not properties (the bytes of a buffer, the pending events of a stream, the entries
  of a form).
\<close>

datatype kind =
    PlainObject
  | ArrayObject
  | ErrorObject
  | TypeErrorObject
  | DOMException
  | Buffer bytes
  | Readable "stream_event list"
  | FormData "form_entry list"
  | Blob bytes

record obj =
  kind :: kind
  props :: "(string \<times> jsval) list"

text \<open>
  One exchange with the HTTP transport: the URL and the configuration object of the
  request with the store they were sent in, and the way the transport settled it
  (\<open>Inr\<close> a response, \<open>Inl\<close> a rejection) with the store it settled in.
\<close>

record exchange =
  url :: jsstring
  config :: jsval
  sent_in :: "obj list"
  settled :: "jsval + jsval"
  settled_in :: "obj list"

text \<open>The world a call runs in: the store, and the exchanges with the transport so far.\<close>

record world =
  heap :: "obj list"
  trace :: "exchange list"

text \<open>
  A computation runs in a world and either returns a value (\<open>Inr\<close>) or throws one
  (\<open>Inl\<close>); for an \<open>async\<close> function these are the promise resolving and rejecting.
\<close>

type_synonym 'a comp = "world \<Rightarrow> (jsval + 'a) \<times> world"

definition ret :: "'a \<Rightarrow> 'a comp" where
  "ret v w = (Inr v, w)"

definition raise :: "jsval \<Rightarrow> 'a comp" where
  "raise e w = (Inl e, w)"

definition seq :: "'a comp \<Rightarrow> ('a \<Rightarrow> 'b comp) \<Rightarrow> 'b comp" where
  "seq m f w = (case m w of (Inl e, w') \<Rightarrow> (Inl e, w') | (Inr v, w') \<Rightarrow> f v w')"

definition try_catch :: "'a comp \<Rightarrow> (jsval \<Rightarrow> 'a comp) \<Rightarrow> 'a comp" where
  "try_catch m handler w = (case m w of (Inl e, w') \<Rightarrow> handler e w' | (Inr v, w') \<Rightarrow> (Inr v, w'))"

definition truthy :: "jsval \<Rightarrow> bool" where
  "truthy v = (case v of Undefined \<Rightarrow> False | Null \<Rightarrow> False | Bool b \<Rightarrow> b
                | Num n \<Rightarrow> n \<noteq> 0 | Str s \<Rightarrow> s \<noteq> [] | Ref a \<Rightarrow> True)"

text \<open>\<open>a || b\<close>\<close>

definition or_else :: "jsval \<Rightarrow> jsval \<Rightarrow> jsval" where
  "or_else a b = (if truthy a then a else b)"

text \<open>A parameter default \<open>x = d\<close> applies when the argument is \<open>undefined\<close>.\<close>

definition default_to :: "jsval \<Rightarrow> jsval \<Rightarrow> jsval" where
  "default_to d v = (if v = Undefined then d else v)"

definition new_object :: "kind \<Rightarrow> (string \<times> jsval) list \<Rightarrow> jsval comp" where
  "new_object k ps w =
     (Inr (Ref (length (heap w))), w\<lparr>heap := heap w @ [\<lparr>kind = k, props = ps\<rparr>]\<rparr>)"

text \<open>\<open>Error(message)\<close> and the \<open>TypeError\<close> the runtime throws by itself.\<close>

definition new_error :: "jsstring \<Rightarrow> jsval comp" where
  "new_error message =
     new_object ErrorObject [(''message'', Str message), (''name'', Str (js ''Error''))]"

definition type_error :: "'a comp" where
  "type_error = seq (new_object TypeErrorObject [(''name'', Str (js ''TypeError''))]) raise"

definition lookup :: "(string \<times> jsval) list \<Rightarrow> string \<Rightarrow> jsval" where
  "lookup ps k = (case map_of ps k of None \<Rightarrow> Undefined | Some v \<Rightarrow> v)"

subsection \<open>Strings of numbers\<close>

definition digit :: "nat \<Rightarrow> char" where
  "digit d = ''0123456789'' ! (d mod 10)"

function dec :: "nat \<Rightarrow> string" where
  "dec n = (if n < 10 then [digit n] else dec (n div 10) @ [digit (n mod 10)])"
  by pat_completeness auto
termination
  by (relation "measure id") auto

definition num_to_string :: "int \<Rightarrow> jsstring" where
  "num_to_string n = (if n < 0 then js (''-'' @ dec (nat (- n))) else js (dec (nat n)))"

text \<open>
  \<open>String(v)\<close>, as a template literal and \<open>+=\<close> on a string apply it. It is exact
  for strings, booleans, \<open>undefined\<close> and \<open>null\<close>. A number is printed with
  all its decimal digits, as JavaScript prints an integer that a double holds exactly and
  that is below ten to the power 21 in magnitude, and an object as a plain object prints,
  whatever its kind (an array prints its elements, an error its name and message). The
  statements below that depend on the text of a value are about strings.
\<close>

definition to_string :: "jsval \<Rightarrow> jsstring" where
  "to_string v =
     (case v of
        Undefined \<Rightarrow> js ''undefined''
      | Null \<Rightarrow> js ''null''
      | Bool b \<Rightarrow> (if b then js ''true'' else js ''false'')
      | Num n \<Rightarrow> num_to_string n
      | Str s \<Rightarrow> s
      | Ref a \<Rightarrow> js ''[object Object]'')"

text \<open>
  The properties \<open>{...v}\<close> copies: those of an object, the code units of a string
  under their indices, nothing for any other value.
\<close>

definition own_props :: "obj list \<Rightarrow> jsval \<Rightarrow> (string \<times> jsval) list" where
  "own_props h v =
     (case v of
        Ref a \<Rightarrow> (if a < length h then props (h ! a) else [])
      | Str s \<Rightarrow> map (\<lambda>(i, c). (dec i, Str [c])) (enumerate 0 s)
      | _ \<Rightarrow> [])"

text \<open>
  \<open>v.k\<close>: reading through \<open>undefined\<close> or \<open>null\<close> throws a \<open>TypeError\<close>; a number
  or boolean has none of the properties this library reads. An address outside the store
  is no object, and reading through it fails in the same way.
\<close>

definition readable :: "obj list \<Rightarrow> jsval \<Rightarrow> bool" where
  "readable h v = (case v of Undefined \<Rightarrow> False | Null \<Rightarrow> False | Ref a \<Rightarrow> a < length h | _ \<Rightarrow> True)"

definition field :: "obj list \<Rightarrow> jsval \<Rightarrow> string \<Rightarrow> jsval" where
  "field h v k = lookup (own_props h v) k"

definition member :: "jsval \<Rightarrow> string \<Rightarrow> jsval comp" where
  "member v k w = (if readable (heap w) v then ret (field (heap w) v k) w else type_error w)"

text \<open>\<open>v.k = x\<close> in strict mode: only an object takes the property.\<close>

definition assign :: "jsval \<Rightarrow> string \<Rightarrow> jsval \<Rightarrow> unit comp" where
  "assign v k x w =
     (case v of
        Ref a \<Rightarrow>
          (if a < length (heap w)
           then ret () (w\<lparr>heap := (heap w)[a := (heap w ! a)\<lparr>props := AList.update k x (props (heap w ! a))\<rparr>]\<rparr>)
           else type_error w)
      | _ \<Rightarrow> type_error w)"

definition instanceof_DOMException :: "jsval \<Rightarrow> bool comp" where
  "instanceof_DOMException v w =
     ret (case v of Ref a \<Rightarrow> a < length (heap w) \<and> kind (heap w ! a) = DOMException
          | _ \<Rightarrow> False) w"

definition spread :: "jsval \<Rightarrow> (string \<times> jsval) list comp" where
  "spread v w = ret (own_props (heap w) v) w"

text \<open>
  An options object that the callee destructures at once (\<open>f({a, b})\<close> against
  \<open>function f({a, b = d} = {})\<close>) is passed as the list of its properties; a name
  that is not among them reads as \<open>undefined\<close>.
\<close>

type_synonym options = "(string \<times> jsval) list"

text \<open>An object literal \<open>{...a, ...b}\<close>: a later entry replaces an earlier one in place.\<close>

definition merge_props :: "(string \<times> jsval) list \<Rightarrow> (string \<times> jsval) list \<Rightarrow> (string \<times> jsval) list" where
  "merge_props ps qs = foldl (\<lambda>acc (k, v). AList.update k v acc) ps qs"

section \<open>utilites.js\<close>

subsection \<open>attachAuthTokenToHeader\<close>

text \<open>
  \<open>/\s/\<close> matches one code unit of white space or a line terminator:
  TAB, LF, VT, FF, CR, SPACE, NBSP, U+1680, U+2000 to U+200A, U+2028, U+2029, U+202F,
  U+205F, U+3000 and U+FEFF.
\<close>

definition is_space :: "16 word \<Rightarrow> bool" where
  "is_space c =
     (c \<in> {0x9, 0xA, 0xB, 0xC, 0xD, 0x20, 0xA0, 0x1680, 0x2028, 0x2029, 0x202F, 0x205F, 0x3000, 0xFEFF}
      \<or> (0x2000 \<le> c \<and> c \<le> 0x200A))"

text \<open>\<open>s.split(/\s/)\<close>: the pieces between the matches; no match gives the string itself.\<close>

fun split_ws :: "jsstring \<Rightarrow> jsstring list" where
  "split_ws [] = [[]]"
| "split_ws (c # cs) =
     (if is_space c then [] # split_ws cs
      else (case split_ws cs of [] \<Rightarrow> [[c]] | p # ps \<Rightarrow> (c # p) # ps))"

text \<open>
  \<^verbatim>\<open>
  function attachAuthTokenToHeader(authToken, headers = {}) {
      if (!authToken) { return undefined; }
      else if (authToken.split(/\s/).length > 1) { throw Error("Invalid authToken"); }
      headers.Authorization = "Bearer " + authToken;
      return headers;
  }
  \<close>
  A truthy token that is not a string has no \<open>split\<close> method: the call throws a
  \<open>TypeError\<close>.
\<close>

definition attachAuthTokenToHeader :: "jsval \<Rightarrow> jsval \<Rightarrow> jsval comp" where
  "attachAuthTokenToHeader authToken headersArg =
     seq (if headersArg = Undefined then new_object PlainObject [] else ret headersArg)
       (\<lambda>headers.
          if \<not> truthy authToken then ret Undefined
          else (case authToken of
                  Str s \<Rightarrow>
                    if length (split_ws s) > 1
                    then seq (new_error (js ''Invalid authToken'')) raise
                    else seq (assign headers ''Authorization'' (Str (js ''Bearer '' @ s)))
                           (\<lambda>_. ret headers)
                | _ \<Rightarrow> type_error))"

subsection \<open>generateQueryParams\<close>

text \<open>
  \<^verbatim>\<open>
  function generateQueryParams({pattern, limit, offset, sortingOrder, sortParameter, onlyIds} = {}) {
      let params = {};
      if (limit || offset) { params = { limit, offset, ...params, } }
      if (sortParameter) {
          params.sort = `${sortParameter}`;
          if (sortingOrder) { params.sort += `_${sortingOrder}`; }
      }
      if (pattern) { params.pattern = pattern; }
      if (onlyIds) { params.onlyPKeys = true; }
      return params;
  }
  \<close>
\<close>

definition generateQueryParams :: "options \<Rightarrow> jsval comp" where
  "generateQueryParams opts =
     (let pattern = lookup opts ''pattern''; limit = lookup opts ''limit'';
          offset = lookup opts ''offset''; sortingOrder = lookup opts ''sortingOrder'';
          sortParameter = lookup opts ''sortParameter''; onlyIds = lookup opts ''onlyIds''
      in
     seq (new_object PlainObject [])
       (\<lambda>params0.
     seq (if truthy (or_else limit offset)
          then seq (spread params0)
                 (\<lambda>ps. new_object PlainObject
                          (merge_props [(''limit'', limit), (''offset'', offset)] ps))
          else ret params0)
       (\<lambda>params.
     seq (if truthy sortParameter
          then seq (assign params ''sort'' (Str (to_string sortParameter)))
                 (\<lambda>_. if truthy sortingOrder
                       then seq (member params ''sort'')
                              (\<lambda>sort. assign params ''sort''
                                 (Str (to_string sort @ js ''_'' @ to_string sortingOrder)))
                       else ret ())
          else ret ())
       (\<lambda>_.
     seq (if truthy pattern then assign params ''pattern'' pattern else ret ())
       (\<lambda>_.
     seq (if truthy onlyIds then assign params ''onlyPKeys'' (Bool True) else ret ())
       (\<lambda>_. ret params))))))"

subsection \<open>The environment\<close>

text \<open>
  What the library imports and does not define: the platform test \<open>isNode\<close>, the
  HTTP transport \<open>axios\<close> with the \<open>toJSON\<close> method of what it rejects with,
  \<open>JSON.stringify\<close>, and the encoder of the \<open>form-data\<close> package. They are
  parameters of the model.
  \<^item> \<open>axios E URL config h\<close> is how the transport settles the request sent in the
    store \<open>h\<close>: a response (\<open>Inr\<close>) or a rejection (\<open>Inl\<close>), with the objects
    it allocated for it. It allocates; it does not change an object of its caller.
  \<^item> \<open>toJSON E h error\<close> is the value \<open>error.toJSON()\<close> returns with the objects
    allocated for it, \<open>None\<close> when \<open>error\<close> has no such method.
  \<open>CONNECTION_ERROR\<close> is the constant the module creates once, when it is loaded.
\<close>

record env =
  isNode :: bool
  axios :: "jsstring \<Rightarrow> jsval \<Rightarrow> obj list \<Rightarrow> (jsval + jsval) \<times> obj list"
  toJSON :: "obj list \<Rightarrow> jsval \<Rightarrow> (jsval \<times> obj list) option"
  stringify :: "obj list \<Rightarrow> jsval \<Rightarrow> jsstring"
  getBuffer :: "form_entry list \<Rightarrow> bytes"
  getHeaders :: "form_entry list \<Rightarrow> (string \<times> jsval) list"
  CONNECTION_ERROR :: jsval

text \<open>
  \<^verbatim>\<open>const CONNECTION_ERROR = Error("issue1.REST.client: connection could not be made with issue1 REST");\<close>
\<close>

definition load_module :: "jsval comp" where
  "load_module =
     new_error (js ''issue1.REST.client: connection could not be made with issue1 REST'')"

definition call_axios :: "env \<Rightarrow> jsstring \<Rightarrow> jsval \<Rightarrow> jsval comp" where
  "call_axios E URL cfg w =
     (case axios E URL cfg (heap w) of
        (outcome, new) \<Rightarrow>
          (outcome,
           \<lparr>heap = heap w @ new,
            trace = trace w @ [\<lparr>url = URL, config = cfg, sent_in = heap w,
                                settled = outcome, settled_in = heap w @ new\<rparr>]\<rparr>))"

definition call_toJSON :: "env \<Rightarrow> jsval \<Rightarrow> jsval comp" where
  "call_toJSON E error w =
     (case toJSON E (heap w) error of
        None \<Rightarrow> type_error w
      | Some (json, new) \<Rightarrow> ret json (w\<lparr>heap := heap w @ new\<rparr>))"

subsection \<open>attachImageToRequest\<close>

definition kind_of :: "obj list \<Rightarrow> jsval \<Rightarrow> kind option" where
  "kind_of h v = (case v of Ref a \<Rightarrow> (if a < length h then Some (kind (h ! a)) else None)
                  | _ \<Rightarrow> None)"

definition set_kind :: "jsval \<Rightarrow> kind \<Rightarrow> unit comp" where
  "set_kind v k w =
     (case v of
        Ref a \<Rightarrow> (if a < length (heap w)
                   then ret () (w\<lparr>heap := (heap w)[a := (heap w ! a)\<lparr>kind := k\<rparr>]\<rparr>)
                   else type_error w)
      | _ \<Rightarrow> type_error w)"

text \<open>
  \<^verbatim>\<open>
  function appendDataToFormData(formData, data, knownLength) {
      formData.append("image", data, {
          knownLength: knownLength, contentType: 'image/*', filename: imageName,
          header: { 'Content-Transfer-Encoding': 'binary' }
      });
  }
  \<close>
\<close>

definition appendDataToFormData :: "jsval \<Rightarrow> form_entry list \<Rightarrow> form_value \<Rightarrow> nat \<Rightarrow> form_entry list" where
  "appendDataToFormData imageName formData d len =
     formData @ [(''image'', d,
       Some \<lparr>knownLength = len, contentType = js ''image/*'', filename = imageName,
              header = [(''Content-Transfer-Encoding'', js ''binary'')]\<rparr>)]"

text \<open>
  \<^verbatim>\<open>
  let buffer = Buffer.alloc(0);
  await new Promise(resolve => {
      imageData.on('data', chunk => {
          buffer = Buffer.concat([buffer, chunk], chunk.length + buffer.length);
      });
      imageData.on('end', () => resolve());
  });
  \<close>
  The promise resolves when the stream signals \<open>end\<close>. A stream that never does
  leaves it pending for ever: the result is \<open>None\<close>.
\<close>

fun drain :: "stream_event list \<Rightarrow> bytes \<Rightarrow> bytes option" where
  "drain [] buffer = None"
| "drain (Data chunk # es) buffer = drain es (buffer @ chunk)"
| "drain (End # es) buffer = Some buffer"

text \<open>
  \<^verbatim>\<open>
  return { data: formData.getBuffer(),
           headers: { ...headers, ...formData.getHeaders() }, }
  \<close>
\<close>

definition node_fragment :: "env \<Rightarrow> jsval \<Rightarrow> form_entry list \<Rightarrow> jsval comp" where
  "node_fragment E headers formData =
     seq (new_object (Buffer (getBuffer E formData)) [])
       (\<lambda>d.
     seq (spread headers)
       (\<lambda>hs.
     seq (new_object PlainObject (merge_props hs (getHeaders E formData)))
       (\<lambda>merged. new_object PlainObject [(''data'', d), (''headers'', merged)])))"

definition missing_image_message :: jsstring where
  "missing_image_message =
     js ''Instance of FormData provided as image data  '' @ [0x0A]
     @ js (replicate 28 (CHR '' '')) @ js ''but no item present under the key ''
     @ [0x27] @ js ''image'' @ [0x27]"

text \<open>
  \<^verbatim>\<open>
  async function attachImageToRequest(imageData, {headers = {}, otherData, imageName = 'client-js.jpg'}) {
      if (isNode) {
          let formData = new FormDataNode();
          if (otherData) { formData.append("JSON", JSON.stringify(otherData)); }
          if (imageData instanceof Buffer) {
              appendDataToFormData(formData, imageData, imageData.length);
          } else if (imageData instanceof Readable) {
              ... drain the stream into buffer ...
              if (buffer.length === 0) { throw new Error("Provided Readable stream has no data."); }
              appendDataToFormData(formData, buffer, buffer.length);
          } else {
              throw new Error("Only instances of Buffer or ReadStream supported for image data in node environment.");
          }
          return { data: formData.getBuffer(), headers: { ...headers, ...formData.getHeaders() }, }
      }
      if (imageData instanceof FormData) {
          if (!imageData.has('image')) { throw new Error(`Instance of FormData provided ...`); }
          return { data: imageData, headers, }
      } else {
          let formData = new FormData();
          if (imageData instanceof Blob) {
              appendDataToFormData(formData, imageData, imageData.size);
          } else {
              throw new Error("Only instances of FormData, Blob(File) supported for image data in browser environment.");
          }
          return { data: formData, headers, };
      }
  }
  \<close>
  The two branches are \<open>node_branch\<close> and \<open>browser_branch\<close>. The second
  argument has no default: the model is of the calls that pass an options object. The
  form of the server branch is local to the call and is kept as the list of its entries;
  a stream that has been drained has nothing left to emit.
\<close>

definition node_branch ::
  "env \<Rightarrow> jsval \<Rightarrow> jsval \<Rightarrow> jsval \<Rightarrow> jsval \<Rightarrow> world \<Rightarrow> ((jsval + jsval) \<times> world) option" where
  "node_branch E imageData headers otherData imageName w =
     (let formData =
            (if truthy otherData
             then [(''JSON'', Text (stringify E (heap w) otherData), None)] else [])
      in
      case kind_of (heap w) imageData of
        Some (Buffer bs) \<Rightarrow>
          Some (node_fragment E headers
                  (appendDataToFormData imageName formData (Bytes bs) (length bs)) w)
      | Some (Readable es) \<Rightarrow>
          (case drain es [] of
             None \<Rightarrow> None
           | Some buffer \<Rightarrow>
               Some (seq (set_kind imageData (Readable []))
                 (\<lambda>_. if length buffer = 0
                       then seq (new_error (js ''Provided Readable stream has no data.'')) raise
                       else node_fragment E headers
                              (appendDataToFormData imageName formData (Bytes buffer) (length buffer)))
                 w))
      | _ \<Rightarrow>
          Some (seq (new_error (js ''Only instances of Buffer or ReadStream supported for image data in node environment.'')) raise w))"

definition browser_branch :: "jsval \<Rightarrow> jsval \<Rightarrow> jsval \<Rightarrow> jsval comp" where
  "browser_branch imageData headers imageName w =
     (case kind_of (heap w) imageData of
        Some (FormData entries) \<Rightarrow>
          if \<not> list_ex (\<lambda>e. fst e = ''image'') entries
          then seq (new_error missing_image_message) raise w
          else new_object PlainObject [(''data'', imageData), (''headers'', headers)] w
      | other \<Rightarrow>
          seq (new_object (FormData []) [])
            (\<lambda>formData.
               case other of
                 Some (Blob bs) \<Rightarrow>
                   seq (set_kind formData
                          (FormData (appendDataToFormData imageName [] (BlobPart imageData) (length bs))))
                     (\<lambda>_. new_object PlainObject [(''data'', formData), (''headers'', headers)])
               | _ \<Rightarrow>
                   seq (new_error (js ''Only instances of FormData, Blob(File) supported for image data in browser environment.'')) raise)
            w)"

definition attachImageToRequest ::
  "env \<Rightarrow> jsval \<Rightarrow> options \<Rightarrow> world \<Rightarrow> ((jsval + jsval) \<times> world) option" where
  "attachImageToRequest E imageData opts w0 =
     (let otherData = lookup opts ''otherData'';
          imageName = default_to (Str (js ''client-js.jpg'')) (lookup opts ''imageName'')
      in
      case (if lookup opts ''headers'' = Undefined then new_object PlainObject [] w0
            else ret (lookup opts ''headers'') w0) of
        (Inl e, w) \<Rightarrow> Some (Inl e, w)
      | (Inr headers, w) \<Rightarrow>
          if isNode E then node_branch E imageData headers otherData imageName w
          else Some (browser_branch imageData headers imageName w))"

subsection \<open>makeRequest\<close>

text \<open>
  \<^verbatim>\<open>
  async function makeRequest(URL, {method = 'get', responseType = 'json', headers, data, params, transformRequest} = {}) {
      let config = { method, headers: { ...headers, }, url: URL, responseType, data, params, transformRequest, };
  \<close>
\<close>

definition build_config :: "jsstring \<Rightarrow> options \<Rightarrow> jsval comp" where
  "build_config URL opts =
     (let method = default_to (Str (js ''get'')) (lookup opts ''method'');
          responseType = default_to (Str (js ''json'')) (lookup opts ''responseType'');
          headers = lookup opts ''headers''; d = lookup opts ''data'';
          params = lookup opts ''params''; transformRequest = lookup opts ''transformRequest''
      in
      seq (spread headers)
        (\<lambda>hs.
      seq (new_object PlainObject hs)
        (\<lambda>headersCopy.
           new_object PlainObject
             [(''method'', method), (''headers'', headersCopy), (''url'', Str URL),
              (''responseType'', responseType), (''data'', d), (''params'', params),
              (''transformRequest'', transformRequest)])))"

text \<open>
  \<^verbatim>\<open>
      try {
          let response = await axios(URL, config);
          if (response.data.status === "fail") { throw response.data; }
          return response.data;
      }
  \<close>
\<close>

definition check_response :: "jsval \<Rightarrow> jsval comp" where
  "check_response response =
     seq (member response ''data'')
       (\<lambda>d.
     seq (member d ''status'')
       (\<lambda>st. if st = Str (js ''fail'') then raise d else ret d))"

definition try_clause :: "env \<Rightarrow> jsstring \<Rightarrow> jsval \<Rightarrow> jsval comp" where
  "try_clause E URL cfg = seq (call_axios E URL cfg) check_response"

text \<open>
  \<^verbatim>\<open>
          let description = '';
          let response;
          if (!!error.response) {
              description += 'there was a response; ';
              if (!!error.response.data) {
                  if (!!error.response.data.status) {
                      let jSend = error.response.data;
                      jSend.errorCode = error.response.status;
                      throw jSend;
                  }
              }
              response = { status: error.response.status, statusText: error.response.statusText,
                           headers: error.response.headers, data: error.response.data, };
          }
          else if (!!error.request) {
              description += 'no response was received; ';
              if (error.code === 'ENOTFOUND') { throw CONNECTION_ERROR; }
          } else {
              description += 'setting up request failed; ';
          }
  \<close>
  The result is the pair of \<open>description\<close> and \<open>response\<close>.
\<close>

definition classify :: "env \<Rightarrow> jsval \<Rightarrow> (jsstring \<times> jsval) comp" where
  "classify E error =
     seq (member error ''response'')
       (\<lambda>r.
          if truthy r then
            seq (member r ''data'')
              (\<lambda>d.
            seq (if truthy d
                 then seq (member d ''status'')
                        (\<lambda>s. if truthy s
                              then seq (member r ''status'')
                                     (\<lambda>code. seq (assign d ''errorCode'' code) (\<lambda>_. raise d))
                              else ret ())
                 else ret ())
              (\<lambda>_.
            seq (member r ''status'')
              (\<lambda>rstatus.
            seq (member r ''statusText'')
              (\<lambda>rstatusText.
            seq (member r ''headers'')
              (\<lambda>rheaders.
            seq (new_object PlainObject
                   [(''status'', rstatus), (''statusText'', rstatusText),
                    (''headers'', rheaders), (''data'', d)])
              (\<lambda>response. ret (js ''there was a response; '', response)))))))
          else
            seq (member error ''request'')
              (\<lambda>q.
                 if truthy q then
                   seq (member error ''code'')
                     (\<lambda>code. if code = Str (js ''ENOTFOUND'') then raise (CONNECTION_ERROR E)
                             else ret (js ''no response was received; '', Undefined))
                 else ret (js ''setting up request failed; '', Undefined)))"

text \<open>
  \<^verbatim>\<open>
          let { message, name, nativeDescription: axiosDescription, number, code,
                config: { url, timeout, headers: requestHeaders, data: requestData,
                          method: requestMethod, responseType: expectedType, },
          } = error.toJSON();
          if (!!axiosDescription) { description += axiosDescription; }
          throw { message, name, description, response,
                  request: { url, method: requestMethod, headers: requestHeaders,
                             data: requestData, timeout, responseType: expectedType, },
                  number, code, };
  \<close>
\<close>

definition report :: "env \<Rightarrow> jsval \<Rightarrow> jsstring \<Rightarrow> jsval \<Rightarrow> jsval comp" where
  "report E error description response =
     seq (call_toJSON E error) (\<lambda>json.
     seq (member json ''message'') (\<lambda>message.
     seq (member json ''name'') (\<lambda>name.
     seq (member json ''nativeDescription'') (\<lambda>axiosDescription.
     seq (member json ''number'') (\<lambda>number.
     seq (member json ''code'') (\<lambda>code.
     seq (member json ''config'') (\<lambda>cfg.
     seq (member cfg ''url'') (\<lambda>requestUrl.
     seq (member cfg ''timeout'') (\<lambda>timeout.
     seq (member cfg ''headers'') (\<lambda>requestHeaders.
     seq (member cfg ''data'') (\<lambda>requestData.
     seq (member cfg ''method'') (\<lambda>requestMethod.
     seq (member cfg ''responseType'') (\<lambda>expectedType.
     seq (new_object PlainObject
            [(''url'', requestUrl), (''method'', requestMethod), (''headers'', requestHeaders),
             (''data'', requestData), (''timeout'', timeout), (''responseType'', expectedType)])
       (\<lambda>request.
     seq (new_object PlainObject
            [(''message'', message), (''name'', name),
             (''description'',
                Str (if truthy axiosDescription then description @ to_string axiosDescription
                     else description)),
             (''response'', response), (''request'', request),
             (''number'', number), (''code'', code)])
       raise))))))))))))))"

text \<open>
  \<^verbatim>\<open>
      } catch (error) {
          if (error.status === "fail") { throw error; }
          if (error instanceof DOMException) {
              if (error.name === "SyntaxError") {
                  throw new Error("Invalid input: unable to parse input.");
              } else {
                  let newError = Error("unexpected exception: DOMException thrown by axios. Attached to this error object under property {domException}");
                  newError.domException = error;
                  throw newError;
              }
          }
          ... classify, then report ...
      }
  \<close>
\<close>

definition catch_clause :: "env \<Rightarrow> jsval \<Rightarrow> jsval comp" where
  "catch_clause E error =
     seq (member error ''status'')
       (\<lambda>st.
          if st = Str (js ''fail'') then raise error
          else
            seq (instanceof_DOMException error)
              (\<lambda>dom.
                 if dom then
                   seq (member error ''name'')
                     (\<lambda>name.
                        if name = Str (js ''SyntaxError'')
                        then seq (new_error (js ''Invalid input: unable to parse input.'')) raise
                        else
                          seq (new_error (js ''unexpected exception: DOMException thrown by axios. Attached to this error object under property {domException}''))
                            (\<lambda>newError.
                          seq (assign newError ''domException'' error)
                            (\<lambda>_. raise newError)))
                 else
                   seq (classify E error)
                     (\<lambda>(description, response). report E error description response)))"

definition makeRequest :: "env \<Rightarrow> jsstring \<Rightarrow> options \<Rightarrow> jsval comp" where
  "makeRequest E URL opts =
     seq (build_config URL opts)
       (\<lambda>cfg. try_catch (try_clause E URL cfg) (catch_clause E))"

section \<open>The user service\<close>

text \<open>
  \<^verbatim>\<open>
  async function getUser(baseURL, username, authToken = "") {
      let response = (await makeRequest(`${baseURL}/users/${username}`,
          {headers: attachAuthTokenToHeader(authToken)}));
      return response.data;
  }
  \<close>
\<close>

definition getUser :: "env \<Rightarrow> jsval \<Rightarrow> jsval \<Rightarrow> jsval \<Rightarrow> jsval comp" where
  "getUser E baseURL username authTokenArg =
     (let authToken = default_to (Str []) authTokenArg in
      seq (attachAuthTokenToHeader authToken Undefined)
        (\<lambda>hs.
      seq (makeRequest E (to_string baseURL @ js ''/users/'' @ to_string username)
             [(''headers'', hs)])
        (\<lambda>response. member response ''data'')))"

text \<open>
  \<^verbatim>\<open>
  async function addUser(baseURL, user) {
      return (await makeRequest(`${baseURL}/users`, {method: 'post', data: user})).data;
  }
  \<close>
\<close>

definition addUser :: "env \<Rightarrow> jsval \<Rightarrow> jsval \<Rightarrow> jsval comp" where
  "addUser E baseURL user =
     seq (makeRequest E (to_string baseURL @ js ''/users'')
            [(''method'', Str (js ''post'')), (''data'', user)])
       (\<lambda>response. member response ''data'')"

text \<open>
  \<^verbatim>\<open>
  async function deleteUser(baseURL, username, authToken) {
      return (await makeRequest(`${baseURL}/users/${username}`,
          { method: 'delete', headers: attachAuthTokenToHeader(authToken) }));
  }
  \<close>
\<close>

definition deleteUser :: "env \<Rightarrow> jsval \<Rightarrow> jsval \<Rightarrow> jsval \<Rightarrow> jsval comp" where
  "deleteUser E baseURL username authToken =
     seq (attachAuthTokenToHeader authToken Undefined)
       (\<lambda>hs. makeRequest E (to_string baseURL @ js ''/users/'' @ to_string username)
               [(''method'', Str (js ''delete'')), (''headers'', hs)])"

text \<open>
  \<^verbatim>\<open>
  async function updateUser(baseURL, username, user, authToken) {
      return (await makeRequest(`${baseURL}/users/${username}`,
          { method: 'put', headers: attachAuthTokenToHeader(authToken), data: user })).data;
  }
  \<close>
\<close>

definition updateUser :: "env \<Rightarrow> jsval \<Rightarrow> jsval \<Rightarrow> jsval \<Rightarrow> jsval \<Rightarrow> jsval comp" where
  "updateUser E baseURL username user authToken =
     seq (attachAuthTokenToHeader authToken Undefined)
       (\<lambda>hs.
     seq (makeRequest E (to_string baseURL @ js ''/users/'' @ to_string username)
            [(''method'', Str (js ''put'')), (''headers'', hs), (''data'', user)])
       (\<lambda>response. member response ''data''))"

text \<open>
  \<^verbatim>\<open>
  async function searchUsers(baseURL, pattern = "", {limit, offset, sortingOrder, sortParameter} = {}) {
      let response = await makeRequest(`${baseURL}/users`,
          { method: 'get',
            params: generateQueryParams({pattern, limit, offset, sortingOrder, sortParameter}), });
      return response.data;
  }
  \<close>
\<close>

definition searchUsers :: "env \<Rightarrow> jsval \<Rightarrow> jsval \<Rightarrow> options \<Rightarrow> jsval comp" where
  "searchUsers E baseURL patternArg opts =
     (let pattern = default_to (Str []) patternArg in
      seq (generateQueryParams
             [(''pattern'', pattern), (''limit'', lookup opts ''limit''),
              (''offset'', lookup opts ''offset''),
              (''sortingOrder'', lookup opts ''sortingOrder''),
              (''sortParameter'', lookup opts ''sortParameter'')])
        (\<lambda>params.
      seq (makeRequest E (to_string baseURL @ js ''/users'')
             [(''method'', Str (js ''get'')), (''params'', params)])
        (\<lambda>response. member response ''data'')))"

text \<open>
  \<^verbatim>\<open>
  async function getUsers(baseURL, {limit, offset, sortingOrder, sortParameter} = {}) {
      return searchUsers(baseURL, "", {limit, offset, sortingOrder, sortParameter})
  }
  \<close>
\<close>

definition getUsers :: "env \<Rightarrow> jsval \<Rightarrow> options \<Rightarrow> jsval comp" where
  "getUsers E baseURL opts =
     searchUsers E baseURL (Str [])
       [(''limit'', lookup opts ''limit''), (''offset'', lookup opts ''offset''),
        (''sortingOrder'', lookup opts ''sortingOrder''),
        (''sortParameter'', lookup opts ''sortParameter'')]"

text \<open>
  \<^verbatim>\<open>
  async function addPostBookmark(baseURL, username, postID, authToken) {
      return (await makeRequest(`${baseURL}/users/${username}/bookmarks/${postID}`,
          { method: 'put', headers: attachAuthTokenToHeader(authToken), }));
  }
  \<close>
\<close>

definition addPostBookmark :: "env \<Rightarrow> jsval \<Rightarrow> jsval \<Rightarrow> jsval \<Rightarrow> jsval \<Rightarrow> jsval comp" where
  "addPostBookmark E baseURL username postID authToken =
     seq (attachAuthTokenToHeader authToken Undefined)
       (\<lambda>hs. makeRequest E
               (to_string baseURL @ js ''/users/'' @ to_string username @ js ''/bookmarks/''
                @ to_string postID)
               [(''method'', Str (js ''put'')), (''headers'', hs)])"

text \<open>
  \<^verbatim>\<open>
  async function getUserBookmarks(baseURL, username, authToken) {
      return (await makeRequest(`${baseURL}/users/${username}/bookmarks`,
          { method: 'get', headers: attachAuthTokenToHeader(authToken), })).data;
  }
  \<close>
\<close>

definition getUserBookmarks :: "env \<Rightarrow> jsval \<Rightarrow> jsval \<Rightarrow> jsval \<Rightarrow> jsval comp" where
  "getUserBookmarks E baseURL username authToken =
     seq (attachAuthTokenToHeader authToken Undefined)
       (\<lambda>hs.
     seq (makeRequest E (to_string baseURL @ js ''/users/'' @ to_string username @ js ''/bookmarks'')
            [(''method'', Str (js ''get'')), (''headers'', hs)])
       (\<lambda>response. member response ''data''))"

text \<open>
  \<^verbatim>\<open>
  async function deleteBookmark(baseURL, username, postID, authToken) {
      return (await makeRequest(`${baseURL}/users/${username}/bookmarks/${postID}`,
          { method: 'delete', headers: attachAuthTokenToHeader(authToken), }));
  }
  \<close>
\<close>

definition deleteBookmark :: "env \<Rightarrow> jsval \<Rightarrow> jsval \<Rightarrow> jsval \<Rightarrow> jsval \<Rightarrow> jsval comp" where
  "deleteBookmark E baseURL username postID authToken =
     seq (attachAuthTokenToHeader authToken Undefined)
       (\<lambda>hs. makeRequest E
               (to_string baseURL @ js ''/users/'' @ to_string username @ js ''/bookmarks/''
                @ to_string postID)
               [(''method'', Str (js ''delete'')), (''headers'', hs)])"

text \<open>
  \<^verbatim>\<open>
  async function addProfilePicture(baseURL, username, authToken, imageData, imageName = 'client-js.jpg') {
      return (await makeRequest(`${baseURL}/users/${username}/picture`,
          { method: 'put',
            ...await attachImageToRequest(imageData,
                  { headers: attachAuthTokenToHeader(authToken), imageName }), })).data;
  }
  \<close>
  The call stays pending for ever (\<open>None\<close>) when \<open>attachImageToRequest\<close> does.
\<close>

definition addProfilePicture ::
  "env \<Rightarrow> jsval \<Rightarrow> jsval \<Rightarrow> jsval \<Rightarrow> jsval \<Rightarrow> jsval \<Rightarrow> world
     \<Rightarrow> ((jsval + jsval) \<times> world) option" where
  "addProfilePicture E baseURL username authToken imageData imageNameArg w0 =
     (let imageName = default_to (Str (js ''client-js.jpg'')) imageNameArg in
      case attachAuthTokenToHeader authToken Undefined w0 of
        (Inl e, w1) \<Rightarrow> Some (Inl e, w1)
      | (Inr hs, w1) \<Rightarrow>
          (case attachImageToRequest E imageData [(''headers'', hs), (''imageName'', imageName)] w1 of
             None \<Rightarrow> None
           | Some (Inl e, w2) \<Rightarrow> Some (Inl e, w2)
           | Some (Inr fragment, w2) \<Rightarrow>
               Some (seq (spread fragment)
                 (\<lambda>fs.
               seq (makeRequest E (to_string baseURL @ js ''/users/'' @ to_string username @ js ''/picture'')
                      (merge_props [(''method'', Str (js ''put''))] fs))
                 (\<lambda>response. member response ''data''))
                 w2)))"

text \<open>
  \<^verbatim>\<open>
  async function removeProfilePicture(baseURL, username, authToken) {
      return (await makeRequest(`${baseURL}/users/${username}/picture`,
          { method: 'delete', headers: attachAuthTokenToHeader(authToken), }));
  }
  \<close>
\<close>

definition removeProfilePicture :: "env \<Rightarrow> jsval \<Rightarrow> jsval \<Rightarrow> jsval \<Rightarrow> jsval comp" where
  "removeProfilePicture E baseURL username authToken =
     seq (attachAuthTokenToHeader authToken Undefined)
       (\<lambda>hs. makeRequest E (to_string baseURL @ js ''/users/'' @ to_string username @ js ''/picture'')
               [(''method'', Str (js ''delete'')), (''headers'', hs)])"

section \<open>feed.js\<close>

text \<open>
  \<^verbatim>\<open>
  async function getFeedPosts(baseURL, username, authToken,
                              { limit, offset, sorting, onlyIds = false } = {}) {
      let params = {};
      if (onlyIds || limit || offset || sorting) {
          params = { onlyPKeys: onlyIds, limit, offset, sort: sorting, }
      }
      let response = await makeRequest(`${baseURL}/users/${username}/feed/posts`,
          { headers: attachAuthTokenToHeader(authToken), params, });
      return response.data;
  }
  \<close>
\<close>

definition getFeedPosts :: "env \<Rightarrow> jsval \<Rightarrow> jsval \<Rightarrow> jsval \<Rightarrow> options \<Rightarrow> jsval comp" where
  "getFeedPosts E baseURL username authToken opts =
     (let limit = lookup opts ''limit''; offset = lookup opts ''offset'';
          sorting = lookup opts ''sorting'';
          onlyIds = default_to (Bool False) (lookup opts ''onlyIds'')
      in
      seq (new_object PlainObject [])
        (\<lambda>params0.
      seq (if truthy (or_else (or_else (or_else onlyIds limit) offset) sorting)
           then new_object PlainObject
                  [(''onlyPKeys'', onlyIds), (''limit'', limit), (''offset'', offset),
                   (''sort'', sorting)]
           else ret params0)
        (\<lambda>params.
      seq (attachAuthTokenToHeader authToken Undefined)
        (\<lambda>hs.
      seq (makeRequest E (to_string baseURL @ js ''/users/'' @ to_string username @ js ''/feed/posts'')
             [(''headers'', hs), (''params'', params)])
        (\<lambda>response. member response ''data'')))))"

text \<open>
  \<^verbatim>\<open>
  async function subscribeToChannel(baseURL, username, channelname, authToken) {
      let response = await makeRequest(`${baseURL}/users/${username}/feed/channels`,
          { method: 'post', headers: attachAuthTokenToHeader(authToken), data: { channelname } });
      return response.data;
  }
  \<close>
\<close>

definition subscribeToChannel :: "env \<Rightarrow> jsval \<Rightarrow> jsval \<Rightarrow> jsval \<Rightarrow> jsval \<Rightarrow> jsval comp" where
  "subscribeToChannel E baseURL username channelname authToken =
     seq (attachAuthTokenToHeader authToken Undefined)
       (\<lambda>hs.
     seq (new_object PlainObject [(''channelname'', channelname)])
       (\<lambda>d.
     seq (makeRequest E (to_string baseURL @ js ''/users/'' @ to_string username @ js ''/feed/channels'')
            [(''method'', Str (js ''post'')), (''headers'', hs), (''data'', d)])
       (\<lambda>response. member response ''data'')))"

text \<open>
  \<^verbatim>\<open>
  function NewFeedServiceClient(baseURL) {
      var client = {
          baseURL,
          async getFeedPosts(username, token, { limit, offset, sorting, onlyIds = false } = {}) {
              return getFeedPosts(client.baseURL, username, token, { limit, offset, sorting });
          },
          async subscribeToChannel(username, channelname, authToken) {
              return subscribeToChannel(client.baseURL, username, channelname, authToken);
          }
      };
      return client;
  }
  \<close>
  The client is the object holding \<open>baseURL\<close>; its two methods take it as their
  first argument.
\<close>

definition NewFeedServiceClient :: "jsval \<Rightarrow> jsval comp" where
  "NewFeedServiceClient baseURL = new_object PlainObject [(''baseURL'', baseURL)]"

definition client_getFeedPosts :: "env \<Rightarrow> jsval \<Rightarrow> jsval \<Rightarrow> jsval \<Rightarrow> options \<Rightarrow> jsval comp" where
  "client_getFeedPosts E client username token opts =
     (let limit = lookup opts ''limit''; offset = lookup opts ''offset'';
          sorting = lookup opts ''sorting'';
          onlyIds = default_to (Bool False) (lookup opts ''onlyIds'')
      in
      seq (member client ''baseURL'')
        (\<lambda>baseURL. getFeedPosts E baseURL username token
                     [(''limit'', limit), (''offset'', offset), (''sorting'', sorting)]))"

definition client_subscribeToChannel :: "env \<Rightarrow> jsval \<Rightarrow> jsval \<Rightarrow> jsval \<Rightarrow> jsval \<Rightarrow> jsval comp" where
  "client_subscribeToChannel E client username channelname authToken =
     seq (member client ''baseURL'')
       (\<lambda>baseURL. subscribeToChannel E baseURL username channelname authToken)"

section \<open>The exported operations\<close>

text \<open>
  A call of one of the resource operations the two modules export, with its arguments
  after \<open>baseURL\<close>.
\<close>

datatype operation =
    GetUser jsval jsval
  | AddUser jsval
  | UpdateUser jsval jsval jsval
  | DeleteUser jsval jsval
  | SearchUsers jsval options
  | GetUsers options
  | AddPostBookmark jsval jsval jsval
  | GetUserBookmarks jsval jsval
  | DeleteBookmark jsval jsval jsval
  | AddProfilePicture jsval jsval jsval jsval
  | RemoveProfilePicture jsval jsval
  | GetFeedPosts jsval jsval options
  | SubscribeToChannel jsval jsval jsval

fun call :: "env \<Rightarrow> jsval \<Rightarrow> operation \<Rightarrow> world \<Rightarrow> ((jsval + jsval) \<times> world) option" where
  "call E baseURL (GetUser username authToken) w = Some (getUser E baseURL username authToken w)"
| "call E baseURL (AddUser user) w = Some (addUser E baseURL user w)"
| "call E baseURL (UpdateUser username user authToken) w =
     Some (updateUser E baseURL username user authToken w)"
| "call E baseURL (DeleteUser username authToken) w = Some (deleteUser E baseURL username authToken w)"
| "call E baseURL (SearchUsers pattern opts) w = Some (searchUsers E baseURL pattern opts w)"
| "call E baseURL (GetUsers opts) w = Some (getUsers E baseURL opts w)"
| "call E baseURL (AddPostBookmark username postID authToken) w =
     Some (addPostBookmark E baseURL username postID authToken w)"
| "call E baseURL (GetUserBookmarks username authToken) w =
     Some (getUserBookmarks E baseURL username authToken w)"
| "call E baseURL (DeleteBookmark username postID authToken) w =
     Some (deleteBookmark E baseURL username postID authToken w)"
| "call E baseURL (AddProfilePicture username authToken imageData imageName) w =
     addProfilePicture E baseURL username authToken imageData imageName w"
| "call E baseURL (RemoveProfilePicture username authToken) w =
     Some (removeProfilePicture E baseURL username authToken w)"
| "call E baseURL (GetFeedPosts username authToken opts) w =
     Some (getFeedPosts E baseURL username authToken opts w)"
| "call E baseURL (SubscribeToChannel username channelname authToken) w =
     Some (subscribeToChannel E baseURL username channelname authToken w)"

text \<open>The operations whose source returns what \<open>makeRequest\<close> resolved with, not its \<open>data\<close>.\<close>

fun returns_whole_body :: "operation \<Rightarrow> bool" where
  "returns_whole_body (DeleteUser _ _) = True"
| "returns_whole_body (AddPostBookmark _ _ _) = True"
| "returns_whole_body (DeleteBookmark _ _ _) = True"
| "returns_whole_body (RemoveProfilePicture _ _) = True"
| "returns_whole_body _ = False"

section \<open>Notions used in the statements and proofs\<close>

text \<open>A value that refers to an object of the store.\<close>

definition is_object :: "obj list \<Rightarrow> jsval \<Rightarrow> bool" where
  "is_object h v = (case v of Ref a \<Rightarrow> a < length h | _ \<Rightarrow> False)"

text \<open>
  An exchange that the transport settled by rejecting with a DNS failure: the rejection
  is an object, not itself a \<open>fail\<close> envelope and not a \<open>DOMException\<close>, that
  carries a request, no response, and the error code \<open>ENOTFOUND\<close>.
\<close>

definition dns_failure :: "exchange \<Rightarrow> bool" where
  "dns_failure x =
     (case settled x of
        Inr response \<Rightarrow> False
      | Inl error \<Rightarrow>
          is_object (settled_in x) error
          \<and> field (settled_in x) error ''status'' \<noteq> Str (js ''fail'')
          \<and> kind_of (settled_in x) error \<noteq> Some DOMException
          \<and> \<not> truthy (field (settled_in x) error ''response'')
          \<and> truthy (field (settled_in x) error ''request'')
          \<and> field (settled_in x) error ''code'' = Str (js ''ENOTFOUND''))"

text \<open>A computation that has no exchange with the transport, and one that always throws.\<close>

definition quiet :: "'a comp \<Rightarrow> bool" where
  "quiet m = (\<forall>w. trace (snd (m w)) = trace w)"

definition raises :: "'a comp \<Rightarrow> bool" where
  "raises m = (\<forall>w. \<exists>e. fst (m w) = Inl e)"

text \<open>
  A call that went from \<open>w\<close> to \<open>w'\<close> and resolved with \<open>v\<close> was answered: it had
  one exchange, which the transport settled with a response whose body does not have the
  status \<open>fail\<close>; nothing changed in the store afterwards; and \<open>v\<close> is that body
  (\<open>whole\<close>) or its \<open>data\<close>.
\<close>

definition answered :: "world \<Rightarrow> world \<Rightarrow> bool \<Rightarrow> jsval \<Rightarrow> bool" where
  "answered w w' whole v =
     (\<exists>x response body.
        trace w' = trace w @ [x] \<and> settled x = Inr response \<and> heap w' = settled_in x
        \<and> body = field (settled_in x) response ''data''
        \<and> readable (settled_in x) body
        \<and> field (settled_in x) body ''status'' \<noteq> Str (js ''fail'')
        \<and> v = (if whole then body else field (settled_in x) body ''data''))"

text \<open>
  A call that went from \<open>w\<close> to \<open>w'\<close> and threw \<open>e\<close> was refused, if it had
  one exchange, in each of the three ways in which the transport can hand over an
  envelope.
  \<^item> The transport settled the exchange with a response whose body is an envelope of
    status \<open>fail\<close>: then \<open>e\<close> is that body and nothing changed in the store
    afterwards.
  \<^item> The transport rejected with an error (an object that is not itself a \<open>fail\<close>
    envelope and not a \<open>DOMException\<close>) carrying a response whose body is an object
    with a truthy \<open>status\<close>: then \<open>e\<close> is that body, which now has the status of
    the response as its \<open>errorCode\<close> and the \<open>status\<close> and \<open>data\<close> it had.
  \<^item> The transport rejected with a value that is itself an envelope of status
    \<open>fail\<close>: then \<open>e\<close> is that value and nothing changed in the store afterwards.
\<close>

definition refused :: "world \<Rightarrow> world \<Rightarrow> jsval \<Rightarrow> bool" where
  "refused w w' e =
     ((\<forall>x response.
        trace w' = trace w @ [x] \<and> settled x = Inr response
        \<and> is_object (settled_in x) response
        \<and> is_object (settled_in x) (field (settled_in x) response ''data'')
        \<and> field (settled_in x) (field (settled_in x) response ''data'') ''status'' = Str (js ''fail'')
        \<longrightarrow> e = field (settled_in x) response ''data'' \<and> heap w' = settled_in x)
      \<and> (\<forall>x error response body.
        trace w' = trace w @ [x] \<and> settled x = Inl error
        \<and> is_object (settled_in x) error
        \<and> field (settled_in x) error ''status'' \<noteq> Str (js ''fail'')
        \<and> kind_of (settled_in x) error \<noteq> Some DOMException
        \<and> response = field (settled_in x) error ''response''
        \<and> is_object (settled_in x) response
        \<and> body = field (settled_in x) response ''data''
        \<and> is_object (settled_in x) body
        \<and> truthy (field (settled_in x) body ''status'')
        \<longrightarrow> e = body
          \<and> field (heap w') body ''errorCode'' = field (settled_in x) response ''status''
          \<and> field (heap w') body ''status'' = field (settled_in x) body ''status''
          \<and> field (heap w') body ''data'' = field (settled_in x) body ''data'')
      \<and> (\<forall>x error.
        trace w' = trace w @ [x] \<and> settled x = Inl error
        \<and> field (settled_in x) error ''status'' = Str (js ''fail'')
        \<longrightarrow> e = error \<and> heap w' = settled_in x))"

section \<open>Example environments\<close>

text \<open>
  A server-side environment around a given transport, with the module constant at the
  address it has in \<open>loaded\<close>, the world right after the module was loaded.
\<close>

definition example_env ::
  "(jsstring \<Rightarrow> jsval \<Rightarrow> obj list \<Rightarrow> (jsval + jsval) \<times> obj list) \<Rightarrow> env" where
  "example_env transport =
     \<lparr>isNode = True, axios = transport, toJSON = (\<lambda>h error. None), stringify = (\<lambda>h v. []),
      getBuffer = (\<lambda>form. []), getHeaders = (\<lambda>form. []), CONNECTION_ERROR = Ref 0\<rparr>"

definition loaded :: world where
  "loaded = snd (load_module \<lparr>heap = [], trace = []\<rparr>)"

text \<open>
  A transport that answers every request with status 200 and the body
  \<open>{status: "success", data: {username: "alice"}}\<close>.
\<close>

definition answer_success :: "jsstring \<Rightarrow> jsval \<Rightarrow> obj list \<Rightarrow> (jsval + jsval) \<times> obj list" where
  "answer_success URL cfg h =
     (Inr (Ref (length h)),
      [\<lparr>kind = PlainObject, props = [(''status'', Num 200), (''data'', Ref (length h + 1))]\<rparr>,
       \<lparr>kind = PlainObject,
        props = [(''status'', Str (js ''success'')), (''data'', Ref (length h + 2))]\<rparr>,
       \<lparr>kind = PlainObject, props = [(''username'', Str (js ''alice''))]\<rparr>])"

text \<open>
  A transport that answers every request with status 200 and the body
  \<open>{status: "fail", data: {errorReason: "X", errorMessage: "Y"}}\<close>.
\<close>

definition answer_fail :: "jsstring \<Rightarrow> jsval \<Rightarrow> obj list \<Rightarrow> (jsval + jsval) \<times> obj list" where
  "answer_fail URL cfg h =
     (Inr (Ref (length h)),
      [\<lparr>kind = PlainObject, props = [(''status'', Num 200), (''data'', Ref (length h + 1))]\<rparr>,
       \<lparr>kind = PlainObject,
        props = [(''status'', Str (js ''fail'')), (''data'', Ref (length h + 2))]\<rparr>,
       \<lparr>kind = PlainObject,
        props = [(''errorReason'', Str (js ''X'')), (''errorMessage'', Str (js ''Y''))]\<rparr>])"

text \<open>
  A transport that rejects every request with an error carrying a response of status
  400 and the body \<open>{status: "fail", data: {errorReason: "X", errorMessage: "Y"}}\<close>.
\<close>

definition reject_400 :: "jsstring \<Rightarrow> jsval \<Rightarrow> obj list \<Rightarrow> (jsval + jsval) \<times> obj list" where
  "reject_400 URL cfg h =
     (Inl (Ref (length h)),
      [\<lparr>kind = ErrorObject,
        props = [(''message'', Str (js ''Request failed with status code 400'')),
                 (''name'', Str (js ''Error'')), (''config'', cfg),
                 (''response'', Ref (length h + 1))]\<rparr>,
       \<lparr>kind = PlainObject,
        props = [(''status'', Num 400), (''statusText'', Str (js ''Bad Request'')),
                 (''data'', Ref (length h + 2))]\<rparr>,
       \<lparr>kind = PlainObject,
        props = [(''status'', Str (js ''fail'')), (''data'', Ref (length h + 3))]\<rparr>,
       \<lparr>kind = PlainObject,
        props = [(''errorReason'', Str (js ''X'')), (''errorMessage'', Str (js ''Y''))]\<rparr>])"

text \<open>
  A transport that rejects every request with an error carrying the request, no
  response, and the code \<open>ENOTFOUND\<close>.
\<close>

definition reject_dns :: "jsstring \<Rightarrow> jsval \<Rightarrow> obj list \<Rightarrow> (jsval + jsval) \<times> obj list" where
  "reject_dns URL cfg h =
     (Inl (Ref (length h)),
      [\<lparr>kind = ErrorObject,
        props = [(''message'', Str (js ''getaddrinfo ENOTFOUND'')), (''name'', Str (js ''Error'')),
                 (''code'', Str (js ''ENOTFOUND'')), (''config'', cfg),
                 (''request'', Ref (length h + 1))]\<rparr>,
       \<lparr>kind = PlainObject, props = []\<rparr>])"

text \<open>
  A transport that rejects every request with a value that is itself the envelope
  \<open>{status: "fail", data: {errorReason: "X", errorMessage: "Y"}}\<close>.
\<close>

definition reject_envelope :: "jsstring \<Rightarrow> jsval \<Rightarrow> obj list \<Rightarrow> (jsval + jsval) \<times> obj list" where
  "reject_envelope URL cfg h =
     (Inl (Ref (length h)),
      [\<lparr>kind = PlainObject,
        props = [(''status'', Str (js ''fail'')), (''data'', Ref (length h + 1))]\<rparr>,
       \<lparr>kind = PlainObject,
        props = [(''errorReason'', Str (js ''X'')), (''errorMessage'', Str (js ''Y''))]\<rparr>])"

text \<open>A world with one readable stream that ends without having emitted any data.\<close>

definition empty_stream_world :: world where
  "empty_stream_world = \<lparr>heap = [\<lparr>kind = Readable [End], props = []\<rparr>], trace = []\<rparr>"

text \<open>
  A world whose only object is a readable stream that will emit the events \<open>es\<close>, and
  a server-side environment whose form encoder gives the bytes of the form's binary
  entries, one after the other.
\<close>

definition stream_world :: "stream_event list \<Rightarrow> world" where
  "stream_world es = \<lparr>heap = [\<lparr>kind = Readable es, props = []\<rparr>], trace = []\<rparr>"

definition payload_env :: env where
  "payload_env =
     \<lparr>isNode = True, axios = answer_success, toJSON = (\<lambda>h error. None), stringify = (\<lambda>h v. []),
      getBuffer = (\<lambda>form. concat (map (\<lambda>(name, v, options). case v of Bytes bs \<Rightarrow> bs | _ \<Rightarrow> []) form)),
      getHeaders = (\<lambda>form. []), CONNECTION_ERROR = Ref 0\<rparr>"

section \<open>Properties\<close>

subsection \<open>The store\<close>

lemmas run_defs = seq_def ret_def raise_def new_object_def new_error_def type_error_def
  member_def assign_def spread_def readable_def field_def own_props_def kind_of_def

lemma lookup_Nil [simp]: "lookup [] k = Undefined"
  by (simp add: lookup_def)

lemma lookup_Cons [simp]: "lookup ((k', v) # ps) k = (if k' = k then v else lookup ps k)"
  by (auto simp add: lookup_def)

lemma lookup_update [simp]:
  "lookup (AList.update k v ps) k' = (if k = k' then v else lookup ps k')"
  by (auto simp add: lookup_def update_conv')

lemma to_string_Str [simp]: "to_string (Str s) = s"
  by (simp add: to_string_def)

lemma is_objectD: "is_object h v \<Longrightarrow> \<exists>a. v = Ref a \<and> a < length h"
  by (cases v) (simp_all add: is_object_def)

subsection \<open>Computations without an exchange\<close>

lemma quiet_ret [intro!, simp]: "quiet (ret v)"
  by (simp add: quiet_def ret_def)

lemma quiet_raise [intro!, simp]: "quiet (raise e)"
  by (simp add: quiet_def raise_def)

lemma quiet_seq [intro!]: "quiet m \<Longrightarrow> (\<And>v. quiet (f v)) \<Longrightarrow> quiet (seq m f)"
  by (auto simp add: quiet_def seq_def split: prod.splits sum.splits) (metis snd_conv)+

lemma quiet_try_catch [intro!]: "quiet m \<Longrightarrow> (\<And>e. quiet (h e)) \<Longrightarrow> quiet (try_catch m h)"
  by (auto simp add: quiet_def try_catch_def split: prod.splits sum.splits) (metis snd_conv)+

lemma quiet_new_object [intro!, simp]: "quiet (new_object k ps)"
  by (simp add: quiet_def new_object_def)

lemma quiet_new_error [intro!, simp]: "quiet (new_error m)"
  by (simp add: new_error_def)

lemma quiet_type_error [intro!, simp]: "quiet type_error"
  by (auto simp add: type_error_def)

lemma quiet_member [intro!, simp]: "quiet (member v k)"
  using quiet_type_error by (auto simp add: quiet_def member_def ret_def)

lemma quiet_assign [intro!, simp]: "quiet (assign v k x)"
  using quiet_type_error by (auto simp add: quiet_def assign_def ret_def split: jsval.splits)

lemma quiet_set_kind [intro!, simp]: "quiet (set_kind v k)"
  using quiet_type_error by (auto simp add: quiet_def set_kind_def ret_def split: jsval.splits)

lemma quiet_spread [intro!, simp]: "quiet (spread v)"
  by (simp add: quiet_def spread_def ret_def)

lemma quiet_instanceof [intro!, simp]: "quiet (instanceof_DOMException v)"
  by (simp add: quiet_def instanceof_DOMException_def ret_def)

lemma quiet_call_toJSON [intro!, simp]: "quiet (call_toJSON E e)"
  using quiet_type_error by (auto simp add: quiet_def call_toJSON_def ret_def split: option.splits)

lemma quiet_if [intro!]: "(c \<Longrightarrow> quiet a) \<Longrightarrow> (\<not> c \<Longrightarrow> quiet b) \<Longrightarrow> quiet (if c then a else b)"
  by simp

lemma quiet_case_prod [intro!]: "(\<And>a b. quiet (f a b)) \<Longrightarrow> quiet (case p of (a, b) \<Rightarrow> f a b)"
  by (cases p) simp

lemma quiet_classify [intro!, simp]: "quiet (classify E error)"
  unfolding classify_def
  by (intro quiet_seq quiet_if quiet_member quiet_assign quiet_raise quiet_ret quiet_new_object)

lemma quiet_report [intro!, simp]: "quiet (report E error d r)"
  unfolding report_def
  by (intro quiet_seq quiet_member quiet_call_toJSON quiet_raise quiet_new_object)

lemma quiet_catch_clause [intro!, simp]: "quiet (catch_clause E error)"
  unfolding catch_clause_def
  by (intro quiet_seq quiet_if quiet_case_prod quiet_member quiet_instanceof quiet_new_error
        quiet_assign quiet_raise quiet_classify quiet_report)

lemma quiet_check_response [intro!, simp]: "quiet (check_response r)"
  unfolding check_response_def by (intro quiet_seq quiet_if quiet_member quiet_raise quiet_ret)

lemma quiet_build_config [intro!, simp]: "quiet (build_config URL opts)"
  unfolding build_config_def Let_def by (intro quiet_seq quiet_spread quiet_new_object)

lemma quiet_attachAuthTokenToHeader [intro!, simp]: "quiet (attachAuthTokenToHeader t h)"
  unfolding attachAuthTokenToHeader_def by (auto split: jsval.splits)

lemma quiet_generateQueryParams [intro!, simp]: "quiet (generateQueryParams opts)"
  unfolding generateQueryParams_def Let_def
  by (intro quiet_seq quiet_if quiet_spread quiet_new_object quiet_assign quiet_member quiet_ret)

lemma quiet_node_fragment [intro!, simp]: "quiet (node_fragment E headers form)"
  unfolding node_fragment_def by (intro quiet_seq quiet_spread quiet_new_object)

lemma quietD: "quiet m \<Longrightarrow> m w = (r, w') \<Longrightarrow> trace w' = trace w"
  by (metis quiet_def snd_conv)

lemma quiet_run: "quiet m \<Longrightarrow> trace (snd (m w)) = trace w"
  by (simp add: quiet_def)

lemma quiet_browser_branch [intro!, simp]: "quiet (browser_branch imageData headers imageName)"
  unfolding quiet_def browser_branch_def
  by (auto simp add: quiet_run quiet_seq split: option.splits kind.splits)

lemma node_branch_trace:
  assumes "node_branch E imageData headers otherData imageName w = Some (r, w')"
  shows "trace w' = trace w"
proof -
  have "node_branch E imageData headers otherData imageName w \<noteq> None \<longrightarrow>
      trace (snd (the (node_branch E imageData headers otherData imageName w))) = trace w"
    by (simp add: node_branch_def Let_def quiet_run quiet_seq split: option.splits kind.splits)
  with assms show ?thesis by simp
qed

lemma attachImageToRequest_trace:
  assumes "attachImageToRequest E imageData opts w = Some (r, w')"
  shows "trace w' = trace w"
  using assms
  by (auto simp add: attachImageToRequest_def Let_def new_object_def ret_def
        split: if_splits dest: node_branch_trace quietD [OF quiet_browser_branch])

subsection \<open>Computations that always throw\<close>

lemma raises_raise [intro!, simp]: "raises (raise e)"
  by (simp add: raises_def raise_def)

lemma raises_seq_right [intro!]: "(\<And>v. raises (f v)) \<Longrightarrow> raises (seq m f)"
  by (auto simp add: raises_def seq_def split: prod.splits sum.splits)

lemma raises_if [intro!]: "(c \<Longrightarrow> raises a) \<Longrightarrow> (\<not> c \<Longrightarrow> raises b) \<Longrightarrow> raises (if c then a else b)"
  by simp

lemma raises_case_prod [intro!]: "(\<And>a b. raises (f a b)) \<Longrightarrow> raises (case p of (a, b) \<Rightarrow> f a b)"
  by (cases p) simp

lemma raises_report [intro!, simp]: "raises (report E error d r)"
  unfolding report_def by (intro raises_seq_right raises_raise)

lemma raises_catch_clause [intro!, simp]: "raises (catch_clause E error)"
  unfolding catch_clause_def
  by (intro raises_seq_right raises_if raises_case_prod raises_raise raises_report)

lemma raisesD: "raises m \<Longrightarrow> m w = (r, w') \<Longrightarrow> \<exists>e. r = Inl e"
  by (metis raises_def fst_conv)

lemma try_catch_Inr:
  assumes "try_catch m h w = (Inr v, w')" and "\<And>e. raises (h e)"
  shows "m w = (Inr v, w')"
proof (cases "m w")
  case (Pair r w1)
  show ?thesis
  proof (cases r)
    case (Inl e)
    with Pair assms(1) have "h e w1 = (Inr v, w')"
      by (simp add: try_catch_def)
    with assms(2) [of e] show ?thesis
      by (auto dest: raisesD)
  next
    case (Inr u)
    with Pair assms(1) show ?thesis
      by (simp add: try_catch_def)
  qed
qed

subsection \<open>What a call of makeRequest comes to\<close>

lemma build_config_returns:
  "\<exists>cfg wb. build_config URL opts w = (Inr cfg, wb) \<and> trace wb = trace w"
  by (simp add: build_config_def Let_def run_defs)

text \<open>
  One exchange, then the rest of the \<open>try\<close> clause when the transport settled with a
  response, the \<open>catch\<close> clause when it rejected.
\<close>

lemma makeRequest_run:
  assumes "makeRequest E URL opts w = (r, w')"
  shows "\<exists>cfg wb outcome new.
           build_config URL opts w = (Inr cfg, wb)
         \<and> axios E URL cfg (heap wb) = (outcome, new)
         \<and> trace w' = trace w @ [\<lparr>url = URL, config = cfg, sent_in = heap wb,
                                    settled = outcome, settled_in = heap wb @ new\<rparr>]
         \<and> (r, w') =
             (case outcome of
                Inl error \<Rightarrow> catch_clause E error
              | Inr response \<Rightarrow> try_catch (check_response response) (catch_clause E))
               \<lparr>heap = heap wb @ new,
                trace = trace w @ [\<lparr>url = URL, config = cfg, sent_in = heap wb,
                                    settled = outcome, settled_in = heap wb @ new\<rparr>]\<rparr>"
proof -
  obtain cfg wb where b: "build_config URL opts w = (Inr cfg, wb)" and tb: "trace wb = trace w"
    using build_config_returns by blast
  obtain outcome new where a: "axios E URL cfg (heap wb) = (outcome, new)"
    by fastforce
  let ?x = "\<lparr>url = URL, config = cfg, sent_in = heap wb, settled = outcome,
             settled_in = heap wb @ new\<rparr>"
  let ?w2 = "\<lparr>heap = heap wb @ new, trace = trace w @ [?x]\<rparr>"
  let ?rest = "(case outcome of
                Inl error \<Rightarrow> catch_clause E error
              | Inr response \<Rightarrow> try_catch (check_response response) (catch_clause E))"
  have run: "(r, w') = ?rest ?w2"
    using assms b a tb
    by (auto simp add: makeRequest_def seq_def try_catch_def try_clause_def call_axios_def
          split: sum.splits prod.splits)
  have "quiet ?rest"
    by (cases outcome) auto
  then have "trace w' = trace ?w2"
    using run quietD by metis
  with b a run show ?thesis by auto
qed

lemma makeRequest_exchange:
  assumes "makeRequest E URL opts w = (r, w')" and "trace w' = trace w @ [x]"
  shows "(r, w') =
             (case settled x of
                Inl error \<Rightarrow> catch_clause E error
              | Inr response \<Rightarrow> try_catch (check_response response) (catch_clause E))
               \<lparr>heap = settled_in x, trace = trace w @ [x]\<rparr>"
    and "take (length (heap w)) (settled_in x) = heap w"
proof -
  from makeRequest_run [OF assms(1)] obtain cfg wb outcome new where
    b: "build_config URL opts w = (Inr cfg, wb)" and "axios E URL cfg (heap wb) = (outcome, new)" and
    tr: "trace w' = trace w @ [\<lparr>url = URL, config = cfg, sent_in = heap wb,
                                    settled = outcome, settled_in = heap wb @ new\<rparr>]"
    and run: "(r, w') =
             (case outcome of
                Inl error \<Rightarrow> catch_clause E error
              | Inr response \<Rightarrow> try_catch (check_response response) (catch_clause E))
               \<lparr>heap = heap wb @ new,
                trace = trace w @ [\<lparr>url = URL, config = cfg, sent_in = heap wb,
                                    settled = outcome, settled_in = heap wb @ new\<rparr>]\<rparr>"
    by (elim exE conjE) (rule that)
  from tr assms(2) have x: "x = \<lparr>url = URL, config = cfg, sent_in = heap wb,
                                    settled = outcome, settled_in = heap wb @ new\<rparr>"
    by simp
  with run show "(r, w') =
             (case settled x of
                Inl error \<Rightarrow> catch_clause E error
              | Inr response \<Rightarrow> try_catch (check_response response) (catch_clause E))
               \<lparr>heap = settled_in x, trace = trace w @ [x]\<rparr>"
    by simp
  from b have "\<exists>objs. heap wb = heap w @ objs"
    by (auto simp add: build_config_def Let_def run_defs)
  with x show "take (length (heap w)) (settled_in x) = heap w"
    by auto
qed

lemma check_response_Inr:
  "check_response response w = (Inr v, w') \<Longrightarrow>
     w' = w \<and> readable (heap w) response \<and> v = field (heap w) response ''data''
     \<and> readable (heap w) v \<and> field (heap w) v ''status'' \<noteq> Str (js ''fail'')"
  by (auto simp add: check_response_def seq_def member_def ret_def raise_def type_error_def
        new_object_def split: if_splits)

text \<open>A call of makeRequest that resolves.\<close>

lemma makeRequest_Inr:
  assumes "makeRequest E URL opts w = (Inr v, w')"
  shows "\<exists>x response. trace w' = trace w @ [x] \<and> url x = URL \<and> heap w' = settled_in x
           \<and> settled x = Inr response
           \<and> readable (settled_in x) response
           \<and> v = field (settled_in x) response ''data''
           \<and> readable (settled_in x) v
           \<and> field (settled_in x) v ''status'' \<noteq> Str (js ''fail'')"
proof -
  from makeRequest_run [OF assms] obtain cfg wb outcome new where
    "build_config URL opts w = (Inr cfg, wb)" and "axios E URL cfg (heap wb) = (outcome, new)" and
    tr: "trace w' = trace w @ [\<lparr>url = URL, config = cfg, sent_in = heap wb,
                                    settled = outcome, settled_in = heap wb @ new\<rparr>]"
    and run: "(Inr v, w') =
             (case outcome of
                Inl error \<Rightarrow> catch_clause E error
              | Inr response \<Rightarrow> try_catch (check_response response) (catch_clause E))
               \<lparr>heap = heap wb @ new,
                trace = trace w @ [\<lparr>url = URL, config = cfg, sent_in = heap wb,
                                    settled = outcome, settled_in = heap wb @ new\<rparr>]\<rparr>"
    by (elim exE conjE) (rule that)
  show ?thesis
  proof (cases outcome)
    case (Inl error)
    with run show ?thesis
      using raisesD [OF raises_catch_clause] by (metis Inl_Inr_False sum.case(1))
  next
    case (Inr response)
    with run have "try_catch (check_response response) (catch_clause E)
               \<lparr>heap = heap wb @ new,
                trace = trace w @ [\<lparr>url = URL, config = cfg, sent_in = heap wb,
                                    settled = outcome, settled_in = heap wb @ new\<rparr>]\<rparr> = (Inr v, w')"
      by simp
    from check_response_Inr [OF try_catch_Inr [OF this raises_catch_clause]] tr Inr
    show ?thesis by auto
  qed
qed

text \<open>A call of makeRequest that throws after the transport handed over an envelope.\<close>

lemma makeRequest_Inl_fail:
  assumes "makeRequest E URL opts w = (Inl e, w')"
  shows "refused w w' e"
  unfolding refused_def
proof (rule conjI [OF _ conjI]; intro allI impI; elim conjE)
  fix x response
  assume tr: "trace w' = trace w @ [x]" and s: "settled x = Inr response"
    and r: "is_object (settled_in x) response"
    and b: "is_object (settled_in x) (field (settled_in x) response ''data'')"
    and f: "field (settled_in x) (field (settled_in x) response ''data'') ''status'' = Str (js ''fail'')"
  from is_objectD [OF r] obtain a where a: "response = Ref a" "a < length (settled_in x)"
    by blast
  from is_objectD [OF b] obtain c where
    c: "field (settled_in x) response ''data'' = Ref c" "c < length (settled_in x)"
    by blast
  from makeRequest_exchange(1) [OF assms tr] s
  have "(Inl e, w') = try_catch (check_response response) (catch_clause E)
                        \<lparr>heap = settled_in x, trace = trace w @ [x]\<rparr>"
    by simp
  with a c f show "e = field (settled_in x) response ''data'' \<and> heap w' = settled_in x"
    by (simp add: try_catch_def check_response_def catch_clause_def seq_def member_def
          readable_def ret_def raise_def)
next
  fix x error response body
  assume tr: "trace w' = trace w @ [x]" and s: "settled x = Inl error"
    and o: "is_object (settled_in x) error"
    and nf: "field (settled_in x) error ''status'' \<noteq> Str (js ''fail'')"
    and nd: "kind_of (settled_in x) error \<noteq> Some DOMException"
    and r: "response = field (settled_in x) error ''response''"
    and ro: "is_object (settled_in x) response"
    and b: "body = field (settled_in x) response ''data''"
    and bo: "is_object (settled_in x) body"
    and st: "truthy (field (settled_in x) body ''status'')"
  from is_objectD [OF o] obtain a where a: "error = Ref a" "a < length (settled_in x)"
    by blast
  from is_objectD [OF ro] obtain b' where b': "response = Ref b'" "b' < length (settled_in x)"
    by blast
  from is_objectD [OF bo] obtain c where c: "body = Ref c" "c < length (settled_in x)"
    by blast
  from makeRequest_exchange(1) [OF assms tr] s
  have "(Inl e, w') = catch_clause E error \<lparr>heap = settled_in x, trace = trace w @ [x]\<rparr>"
    by simp
  with nf nd r [symmetric] b [symmetric] st a b' c
  show "e = body
      \<and> field (heap w') body ''errorCode'' = field (settled_in x) response ''status''
      \<and> field (heap w') body ''status'' = field (settled_in x) body ''status''
      \<and> field (heap w') body ''data'' = field (settled_in x) body ''data''"
    by (simp add: catch_clause_def classify_def seq_def member_def readable_def ret_def raise_def
          instanceof_DOMException_def kind_of_def truthy_def assign_def field_def own_props_def)
next
  fix x error
  assume tr: "trace w' = trace w @ [x]" and s: "settled x = Inl error"
    and f: "field (settled_in x) error ''status'' = Str (js ''fail'')"
  from f have "readable (settled_in x) error"
    by (cases error) (simp_all add: readable_def field_def own_props_def split: if_splits)
  moreover from makeRequest_exchange(1) [OF assms tr] s
  have "(Inl e, w') = catch_clause E error \<lparr>heap = settled_in x, trace = trace w @ [x]\<rparr>"
    by simp
  ultimately show "e = error \<and> heap w' = settled_in x"
    using f by (simp add: catch_clause_def seq_def member_def ret_def raise_def)
qed

lemmas eval_defs = makeRequest_def build_config_def try_clause_def check_response_def call_axios_def
  catch_clause_def classify_def report_def call_toJSON_def try_catch_def instanceof_DOMException_def
  run_defs example_env_def loaded_def load_module_def default_to_def truthy_def Let_def

subsection \<open>attachAuthTokenToHeader\<close>

lemma split_ws_length: "length (split_ws s) = Suc (length (filter is_space s))"
  by (induction s) (auto split: list.splits)

lemma split_ws_many: "(Suc 0 < length (split_ws s)) = (\<exists>c\<in>set s. is_space c)"
  by (auto simp add: split_ws_length filter_empty_conv)

text \<open>
  C4. A token string with a white-space code unit in it makes \<open>attachAuthTokenToHeader\<close>
  throw (an \<open>Error\<close> with the message "Invalid authToken", whatever the headers
  argument is, and without touching an object of the store). A non-empty token
  string without white space makes it return a header mapping whose \<open>Authorization\<close>
  is \<open>"Bearer "\<close> followed by the token; when a mapping is passed in, the value
  returned is that same object, and the store differs from the one before in that
  object's \<open>Authorization\<close> only.
\<close>

theorem attachAuthTokenToHeader_bearer:
  "((\<exists>c\<in>set s. is_space c) \<longrightarrow>
      (\<exists>e w'. attachAuthTokenToHeader (Str s) headers w = (Inl e, w')
         \<and> kind_of (heap w') e = Some ErrorObject
         \<and> field (heap w') e ''message'' = Str (js ''Invalid authToken'')
         \<and> take (length (heap w)) (heap w') = heap w))
   \<and> (s \<noteq> [] \<and> (\<forall>c\<in>set s. \<not> is_space c)
        \<and> (headers = Undefined \<or> (\<exists>b. headers = Ref b \<and> b < length (heap w))) \<longrightarrow>
      (\<exists>r w'. attachAuthTokenToHeader (Str s) headers w = (Inr r, w')
         \<and> field (heap w') r ''Authorization'' = Str (js ''Bearer '' @ s)
         \<and> (\<forall>b. headers = Ref b \<longrightarrow>
               r = Ref b
               \<and> w' = w\<lparr>heap := (heap w)[b := (heap w ! b)
                      \<lparr>props := AList.update ''Authorization'' (Str (js ''Bearer '' @ s))
                                  (props (heap w ! b))\<rparr>]\<rparr>)))"
  by (auto simp: attachAuthTokenToHeader_def run_defs truthy_def split_ws_many lookup_def
        update_conv' nth_append)

text \<open>
  At the tokens \<open>"a b"\<close> and \<open>"abc"\<close>, with the mapping \<open>{Accept: "*/*"}\<close> passed in.
\<close>

theorem attachAuthTokenToHeader_bearer_witness:
  "(\<exists>c\<in>set (js ''a b''). is_space c)
   \<and> (\<exists>e w'. attachAuthTokenToHeader (Str (js ''a b'')) (Ref 0)
                 \<lparr>heap = [\<lparr>kind = PlainObject, props = [(''Accept'', Str (js ''*/*''))]\<rparr>], trace = []\<rparr>
               = (Inl e, w'))
   \<and> js ''abc'' \<noteq> [] \<and> filter is_space (js ''abc'') = []
   \<and> attachAuthTokenToHeader (Str (js ''abc'')) (Ref 0)
        \<lparr>heap = [\<lparr>kind = PlainObject, props = [(''Accept'', Str (js ''*/*''))]\<rparr>], trace = []\<rparr>
      = (Inr (Ref 0),
         \<lparr>heap = [\<lparr>kind = PlainObject,
                    props = [(''Accept'', Str (js ''*/*'')),
                             (''Authorization'', Str (js ''Bearer abc''))]\<rparr>],
          trace = []\<rparr>)"
proof -
  let ?w = "\<lparr>heap = [\<lparr>kind = PlainObject, props = [(''Accept'', Str (js ''*/*''))]\<rparr>], trace = []\<rparr>"
  have sp: "\<exists>c\<in>set (js ''a b''). is_space c"
    by (simp add: js_def is_space_def)
  have ok: "js ''abc'' \<noteq> [] \<and> (\<forall>c\<in>set (js ''abc''). \<not> is_space c)
      \<and> (Ref 0 = Undefined \<or> (\<exists>b. Ref 0 = Ref b \<and> b < length (heap ?w)))"
    by (simp add: js_def is_space_def)
  have thrown: "\<exists>e w'. attachAuthTokenToHeader (Str (js ''a b'')) (Ref 0) ?w = (Inl e, w')"
    using attachAuthTokenToHeader_bearer [of "js ''a b''" "Ref 0" ?w] sp by blast
  obtain r w' where r: "attachAuthTokenToHeader (Str (js ''abc'')) (Ref 0) ?w = (Inr r, w')"
    and same: "\<forall>b. Ref 0 = Ref b \<longrightarrow> r = Ref b
        \<and> w' = ?w\<lparr>heap := (heap ?w)[b := (heap ?w ! b)
               \<lparr>props := AList.update ''Authorization'' (Str (js ''Bearer '' @ js ''abc''))
                           (props (heap ?w ! b))\<rparr>]\<rparr>"
    using attachAuthTokenToHeader_bearer [of "js ''abc''" "Ref 0" ?w] ok by blast
  from same have "r = Ref 0" and "w' = \<lparr>heap = [\<lparr>kind = PlainObject,
                    props = [(''Accept'', Str (js ''*/*'')),
                             (''Authorization'', Str (js ''Bearer abc''))]\<rparr>], trace = []\<rparr>"
    by (simp_all add: js_def)
  moreover have "filter is_space (js ''abc'') = []"
    by (simp add: js_def is_space_def)
  ultimately show ?thesis using r sp ok thrown by simp
qed

text \<open>
  C9. With the empty string as the token, \<open>attachAuthTokenToHeader\<close> returns
  \<open>undefined\<close>, and does in all what it does for an absent token, whatever the headers
  argument is; no object of the store is changed. Hence \<open>getUser\<close> without a token
  (the default is the empty string) has one exchange with the transport, and the
  \<open>headers\<close> of the configuration it sends is an object without any property: there
  is no \<open>Authorization\<close> header.
\<close>

theorem empty_token_no_header:
  "fst (attachAuthTokenToHeader (Str []) headers w) = Inr Undefined
   \<and> attachAuthTokenToHeader (Str []) headers w = attachAuthTokenToHeader Undefined headers w
   \<and> take (length (heap w)) (heap (snd (attachAuthTokenToHeader (Str []) headers w))) = heap w
   \<and> (\<exists>x. trace (snd (getUser E baseURL username Undefined w)) = trace w @ [x]
          \<and> kind_of (sent_in x) (field (sent_in x) (config x) ''headers'') = Some PlainObject
          \<and> own_props (sent_in x) (field (sent_in x) (config x) ''headers'') = [])"
proof -
  have "fst (attachAuthTokenToHeader (Str []) headers w) = Inr Undefined
   \<and> attachAuthTokenToHeader (Str []) headers w = attachAuthTokenToHeader Undefined headers w
   \<and> take (length (heap w)) (heap (snd (attachAuthTokenToHeader (Str []) headers w))) = heap w"
    by (simp add: attachAuthTokenToHeader_def run_defs truthy_def)
  moreover have "\<exists>x. trace (snd (getUser E baseURL username Undefined w)) = trace w @ [x]
          \<and> kind_of (sent_in x) (field (sent_in x) (config x) ''headers'') = Some PlainObject
          \<and> own_props (sent_in x) (field (sent_in x) (config x) ''headers'') = []"
  proof -
    let ?w1 = "w\<lparr>heap := heap w @ [\<lparr>kind = PlainObject, props = []\<rparr>]\<rparr>"
    let ?URL = "to_string baseURL @ js ''/users/'' @ to_string username"
    obtain r w' where m: "makeRequest E ?URL [(''headers'', Undefined)] ?w1 = (r, w')"
      by fastforce
    from makeRequest_run [OF m] obtain cfg wb outcome new where
      b: "build_config ?URL [(''headers'', Undefined)] ?w1 = (Inr cfg, wb)" and
      tr: "trace w' = trace ?w1 @ [\<lparr>url = ?URL, config = cfg, sent_in = heap wb,
                                    settled = outcome, settled_in = heap wb @ new\<rparr>]"
      by (elim exE conjE) (rule that)
    have g: "snd (getUser E baseURL username Undefined w)
             = snd (seq (makeRequest E ?URL [(''headers'', Undefined)])
                      (\<lambda>response. member response ''data'') ?w1)"
      by (simp add: getUser_def Let_def attachAuthTokenToHeader_def default_to_def truthy_def
            seq_def ret_def new_object_def)
    have "trace (snd (getUser E baseURL username Undefined w)) = trace w'"
      using m by (auto simp add: g seq_def quiet_run split: sum.splits)
    moreover from b have "kind_of (heap wb) (field (heap wb) cfg ''headers'') = Some PlainObject
      \<and> own_props (heap wb) (field (heap wb) cfg ''headers'') = []"
      by (auto simp add: build_config_def Let_def run_defs nth_append)
    ultimately show ?thesis using tr by simp
  qed
  ultimately show ?thesis by blast
qed

text \<open>At a server that answers, in the world right after the module was loaded.\<close>

theorem empty_token_no_header_witness:
  "fst (attachAuthTokenToHeader (Str []) (Ref 0) loaded) = Inr Undefined
   \<and> (\<exists>x. trace (snd (getUser (example_env answer_success) (Str (js ''http://host''))
                         (Str (js ''alice'')) Undefined loaded)) = trace loaded @ [x]
          \<and> own_props (sent_in x) (field (sent_in x) (config x) ''headers'') = [])"
  using empty_token_no_header [of "Ref 0" loaded "example_env answer_success"
      "Str (js ''http://host'')" "Str (js ''alice'')"]
  by blast

subsection \<open>generateQueryParams\<close>

text \<open>
  C5, as the code has it. \<open>generateQueryParams\<close> tests \<open>limit || offset\<close>: when at
  least one of the two is truthy (for a number: present and not 0), the result has both
  the \<open>limit\<close> key and the \<open>offset\<close> key, each with the value passed, which is
  \<open>undefined\<close> for an absent one; when both are falsy (absent, or 0), the result has
  neither key.
\<close>

theorem generateQueryParams_limit_offset:
  "generateQueryParams opts w = (r, w') \<Longrightarrow>
     \<exists>params. r = Inr params \<and>
       (if truthy (lookup opts ''limit'') \<or> truthy (lookup opts ''offset'')
        then map_of (own_props (heap w') params) ''limit'' = Some (lookup opts ''limit'')
           \<and> map_of (own_props (heap w') params) ''offset'' = Some (lookup opts ''offset'')
        else map_of (own_props (heap w') params) ''limit'' = None
           \<and> map_of (own_props (heap w') params) ''offset'' = None)"
  by (auto simp add: generateQueryParams_def run_defs Let_def merge_props_def nth_append
        or_else_def update_conv' split: if_splits)

text \<open>At \<open>{limit: 5}\<close>: both keys, \<open>offset\<close> with the value \<open>undefined\<close>.\<close>

theorem generateQueryParams_limit_offset_witness:
  "\<exists>params w'.
     generateQueryParams [(''limit'', Num 5)] \<lparr>heap = [], trace = []\<rparr> = (Inr params, w')
     \<and> map_of (own_props (heap w') params) ''limit'' = Some (Num 5)
     \<and> map_of (own_props (heap w') params) ''offset'' = Some Undefined"
proof -
  obtain r w' where run: "generateQueryParams [(''limit'', Num 5)] \<lparr>heap = [], trace = []\<rparr> = (r, w')"
    by fastforce
  from generateQueryParams_limit_offset [OF run] show ?thesis
    using run by (auto simp add: truthy_def)
qed

text \<open>
  With the value 0 counted as present, C5 fails at \<open>{limit: 0}\<close>: the result is the
  empty object, with neither key.
\<close>

theorem generateQueryParams_limit_zero_counterexample:
  "lookup [(''limit'', Num 0)] ''limit'' = Num 0
   \<and> fst (generateQueryParams [(''limit'', Num 0)] \<lparr>heap = [], trace = []\<rparr>) = Inr (Ref 0)
   \<and> own_props (heap (snd (generateQueryParams [(''limit'', Num 0)] \<lparr>heap = [], trace = []\<rparr>)))
        (Ref 0) = []"
  by (simp add: generateQueryParams_def run_defs Let_def or_else_def truthy_def)

text \<open>
  C6, for a \<open>sortParameter\<close> and a \<open>sortingOrder\<close> that are each absent or a
  string. The result has a \<open>sort\<close> key exactly when \<open>sortParameter\<close> is present,
  that is, passes the test \<open>if (sortParameter)\<close> of the source (a non-empty string):
  the entry is then the parameter, followed by \<open>_\<close> and \<open>sortingOrder\<close> when that
  is given (a non-empty string). Without a \<open>sortParameter\<close> there is no \<open>sort\<close>
  key, whatever \<open>sortingOrder\<close> is. The keys of the result are among \<open>limit\<close>,
  \<open>offset\<close>, \<open>sort\<close>, \<open>pattern\<close> and \<open>onlyPKeys\<close>, and when none of
  \<open>limit\<close>, \<open>offset\<close>, \<open>pattern\<close> and \<open>onlyIds\<close> is given the
  \<open>sort\<close> entry is all there is.
\<close>

theorem generateQueryParams_sort:
  assumes "generateQueryParams opts w = (r, w')"
    and "lookup opts ''sortParameter'' = (case sortParameter of None \<Rightarrow> Undefined | Some p \<Rightarrow> Str p)"
    and "lookup opts ''sortingOrder'' = (case sortingOrder of None \<Rightarrow> Undefined | Some d \<Rightarrow> Str d)"
  shows "\<exists>params. r = Inr params
       \<and> map_of (own_props (heap w') params) ''sort'' =
           (case sortParameter of
              None \<Rightarrow> None
            | Some p \<Rightarrow>
                if p = [] then None
                else Some (Str (p @ (case sortingOrder of
                                       None \<Rightarrow> []
                                     | Some d \<Rightarrow> if d = [] then [] else js ''_'' @ d))))
       \<and> fst ` set (own_props (heap w') params)
            \<subseteq> {''limit'', ''offset'', ''sort'', ''pattern'', ''onlyPKeys''}
       \<and> (\<not> truthy (lookup opts ''limit'') \<and> \<not> truthy (lookup opts ''offset'')
            \<and> \<not> truthy (lookup opts ''pattern'') \<and> \<not> truthy (lookup opts ''onlyIds'')
            \<longrightarrow> own_props (heap w') params =
                  (case sortParameter of
                     None \<Rightarrow> []
                   | Some p \<Rightarrow>
                       if p = [] then []
                       else [(''sort'', Str (p @ (case sortingOrder of
                                                   None \<Rightarrow> []
                                                 | Some d \<Rightarrow> if d = [] then [] else js ''_'' @ d)))]))"
proof -
  have p: "truthy (lookup opts ''sortParameter'') = (\<exists>p. sortParameter = Some p \<and> p \<noteq> [])"
    using assms(2) by (cases sortParameter) (simp_all add: truthy_def)
  have d: "truthy (lookup opts ''sortingOrder'') = (\<exists>d. sortingOrder = Some d \<and> d \<noteq> [])"
    using assms(3) by (cases sortingOrder) (simp_all add: truthy_def)
  have "\<exists>params. r = Inr params
       \<and> map_of (own_props (heap w') params) ''sort'' =
           (if truthy (lookup opts ''sortParameter'')
            then Some (Str (to_string (lookup opts ''sortParameter'')
                   @ (if truthy (lookup opts ''sortingOrder'')
                      then js ''_'' @ to_string (lookup opts ''sortingOrder'') else [])))
            else None)
       \<and> fst ` set (own_props (heap w') params)
            \<subseteq> {''limit'', ''offset'', ''sort'', ''pattern'', ''onlyPKeys''}
       \<and> (\<not> truthy (lookup opts ''limit'') \<and> \<not> truthy (lookup opts ''offset'')
            \<and> \<not> truthy (lookup opts ''pattern'') \<and> \<not> truthy (lookup opts ''onlyIds'')
            \<longrightarrow> own_props (heap w') params =
                  (if truthy (lookup opts ''sortParameter'')
                   then [(''sort'', Str (to_string (lookup opts ''sortParameter'')
                            @ (if truthy (lookup opts ''sortingOrder'')
                               then js ''_'' @ to_string (lookup opts ''sortingOrder'') else [])))]
                   else []))"
    using assms(1)
    by (auto simp add: generateQueryParams_def run_defs Let_def merge_props_def nth_append
          or_else_def update_conv' dom_update image_iff split: if_splits)
  then show ?thesis
    unfolding p d using assms(2,3)
    by (cases sortParameter; cases sortingOrder) auto
qed

text \<open>
  At \<open>{sortParameter: "username", sortingOrder: "asc"}\<close>, where the result is
  \<open>{sort: "username_asc"}\<close>; at \<open>{sortParameter: "username"}\<close>, where it is
  \<open>{sort: "username"}\<close>; and at \<open>{sortingOrder: "asc"}\<close>, where it has no
  \<open>sort\<close> key.
\<close>

theorem generateQueryParams_sort_witness:
  "(\<exists>params w'.
      generateQueryParams
        [(''sortParameter'', Str (js ''username'')), (''sortingOrder'', Str (js ''asc''))]
        \<lparr>heap = [], trace = []\<rparr> = (Inr params, w')
      \<and> own_props (heap w') params = [(''sort'', Str (js ''username_asc''))])
   \<and> (\<exists>params w'.
      generateQueryParams [(''sortParameter'', Str (js ''username''))] \<lparr>heap = [], trace = []\<rparr>
        = (Inr params, w')
      \<and> own_props (heap w') params = [(''sort'', Str (js ''username''))])
   \<and> (\<exists>params w'.
      generateQueryParams [(''sortingOrder'', Str (js ''asc''))] \<lparr>heap = [], trace = []\<rparr>
        = (Inr params, w')
      \<and> map_of (own_props (heap w') params) ''sort'' = None)"
proof -
  obtain r w' where run:
    "generateQueryParams
       [(''sortParameter'', Str (js ''username'')), (''sortingOrder'', Str (js ''asc''))]
       \<lparr>heap = [], trace = []\<rparr> = (r, w')"
    by fastforce
  obtain r1 w1 where run1:
    "generateQueryParams [(''sortParameter'', Str (js ''username''))] \<lparr>heap = [], trace = []\<rparr>
       = (r1, w1)"
    by fastforce
  obtain r2 w2 where run2:
    "generateQueryParams [(''sortingOrder'', Str (js ''asc''))] \<lparr>heap = [], trace = []\<rparr> = (r2, w2)"
    by fastforce
  from generateQueryParams_sort [OF run, of "Some (js ''username'')" "Some (js ''asc'')"]
  have both: "\<exists>params. r = Inr params
      \<and> own_props (heap w') params = [(''sort'', Str (js ''username_asc''))]"
    by (auto simp add: truthy_def js_def)
  from generateQueryParams_sort [OF run1, of "Some (js ''username'')" None]
  have parameter: "\<exists>params. r1 = Inr params
      \<and> own_props (heap w1) params = [(''sort'', Str (js ''username''))]"
    by (auto simp add: truthy_def js_def)
  from generateQueryParams_sort [OF run2, of None "Some (js ''asc'')"]
  have order: "\<exists>params. r2 = Inr params \<and> map_of (own_props (heap w2) params) ''sort'' = None"
    by auto
  from both parameter order show ?thesis
    using run run1 run2 by auto
qed

subsection \<open>attachImageToRequest\<close>

lemma drain_Some:
  "drain es acc = Some buffer \<Longrightarrow>
     \<exists>chunks rest. es = map Data chunks @ End # rest \<and> buffer = acc @ concat chunks"
proof (induction es acc rule: drain.induct)
  case (1 buffer)
  then show ?case by simp
next
  case (2 chunk es acc)
  then obtain chunks rest where
    "es = map Data chunks @ End # rest" "buffer = (acc @ chunk) @ concat chunks"
    by auto
  then have "Data chunk # es = map Data (chunk # chunks) @ End # rest
      \<and> buffer = acc @ concat (chunk # chunks)"
    by simp
  then show ?case by blast
next
  case (3 es acc)
  then have "End # es = map Data [] @ End # es \<and> buffer = acc @ concat []"
    by simp
  then show ?case by blast
qed

lemma attachImageToRequest_empty_stream:
  assumes "isNode E" and "kind_of (heap w) imageData = Some (Readable es)"
    and "drain es [] = Some []"
  shows "\<exists>e w'. attachImageToRequest E imageData opts w = Some (Inl e, w')
           \<and> field (heap w') e ''message'' = Str (js ''Provided Readable stream has no data.'')
           \<and> trace w' = trace w"
proof -
  from assms(2) obtain a where a: "imageData = Ref a" "a < length (heap w)"
    "kind (heap w ! a) = Readable es"
    by (auto simp add: kind_of_def split: jsval.splits if_splits)
  let ?res = "attachImageToRequest E imageData opts w"
  have "?res \<noteq> None \<and> (\<exists>e. fst (the ?res) = Inl e
          \<and> field (heap (snd (the ?res))) e ''message''
              = Str (js ''Provided Readable stream has no data.''))
        \<and> trace (snd (the ?res)) = trace w"
    using assms(1,3) a
    by (cases "lookup opts ''headers'' = Undefined")
      (simp_all add: attachImageToRequest_def node_branch_def Let_def run_defs set_kind_def
         nth_append)
  then show ?thesis
    by (cases ?res) auto
qed

lemma drain_stream: "drain (map Data chunks @ End # rest) acc = Some (acc @ concat chunks)"
  by (induction chunks arbitrary: acc) simp_all

lemma drain_None: "(drain es acc = None) = (End \<notin> set es)"
  by (induction es acc rule: drain.induct) simp_all

lemma attachImageToRequest_data_stream:
  assumes "isNode E" and "kind_of (heap w) imageData = Some (Readable es)"
    and "drain es [] = Some buffer" and "buffer \<noteq> []"
  shows "\<exists>fragment w'.
           attachImageToRequest E imageData opts w = Some (Inr fragment, w')
           \<and> trace w' = trace w
           \<and> kind_of (heap w') (field (heap w') fragment ''data'')
               = Some (Buffer (getBuffer E
                   (appendDataToFormData
                      (default_to (Str (js ''client-js.jpg'')) (lookup opts ''imageName''))
                      (if truthy (lookup opts ''otherData'')
                       then [(''JSON'',
                              Text (stringify E
                                      (if lookup opts ''headers'' = Undefined
                                       then heap w @ [\<lparr>kind = PlainObject, props = []\<rparr>]
                                       else heap w)
                                      (lookup opts ''otherData'')),
                              None)]
                       else [])
                      (Bytes buffer) (length buffer))))
           \<and> kind_of (heap w') imageData = Some (Readable [])"
proof -
  from assms(2) obtain a where a: "imageData = Ref a" "a < length (heap w)"
    "kind (heap w ! a) = Readable es"
    by (auto simp add: kind_of_def split: jsval.splits if_splits)
  let ?res = "attachImageToRequest E imageData opts w"
  let ?name = "default_to (Str (js ''client-js.jpg'')) (lookup opts ''imageName'')"
  have "?res \<noteq> None \<and> (\<exists>fragment. fst (the ?res) = Inr fragment
          \<and> kind_of (heap (snd (the ?res))) (field (heap (snd (the ?res))) fragment ''data'')
              = Some (Buffer (getBuffer E
                   (appendDataToFormData ?name
                      (if truthy (lookup opts ''otherData'')
                       then [(''JSON'',
                              Text (stringify E
                                      (if lookup opts ''headers'' = Undefined
                                       then heap w @ [\<lparr>kind = PlainObject, props = []\<rparr>]
                                       else heap w)
                                      (lookup opts ''otherData'')),
                              None)]
                       else [])
                      (Bytes buffer) (length buffer)))))
        \<and> kind_of (heap (snd (the ?res))) imageData = Some (Readable [])
        \<and> trace (snd (the ?res)) = trace w"
    using assms(1,3,4) a
    by (cases "lookup opts ''headers'' = Undefined")
      (simp_all add: attachImageToRequest_def node_branch_def node_fragment_def Let_def run_defs
         set_kind_def nth_append kind_of_def field_def own_props_def spread_def)
  then show ?thesis
    by (cases ?res) auto
qed

lemma attachImageToRequest_pending:
  assumes "isNode E" and "kind_of (heap w) imageData = Some (Readable es)"
    and "drain es [] = None"
  shows "attachImageToRequest E imageData opts w = None"
  using assms
  by (auto simp add: attachImageToRequest_def node_branch_def Let_def run_defs nth_append
        split: jsval.splits if_splits)

lemma attachAuthTokenToHeader_kind:
  assumes "attachAuthTokenToHeader t Undefined w = (r, w1)" and "kind_of (heap w) v = Some k"
  shows "kind_of (heap w1) v = Some k"
  using assms
  by (auto simp add: attachAuthTokenToHeader_def run_defs nth_append split: jsval.splits if_splits)

lemma addProfilePicture_empty_stream:
  assumes "isNode E" and "kind_of (heap w) imageData = Some (Readable es)"
    and empty: "drain es [] = Some []"
  shows "\<exists>e w'. addProfilePicture E baseURL username authToken imageData imageName w
                  = Some (Inl e, w')
               \<and> trace w' = trace w"
proof -
  obtain r w1 where a: "attachAuthTokenToHeader authToken Undefined w = (r, w1)"
    by fastforce
  have t1: "trace w1 = trace w"
    using quietD [OF quiet_attachAuthTokenToHeader a] .
  show ?thesis
  proof (cases r)
    case (Inl e)
    with a t1 show ?thesis
      by (simp add: addProfilePicture_def Let_def)
  next
    case (Inr hs)
    from attachAuthTokenToHeader_kind [OF a assms(2)]
    have "kind_of (heap w1) imageData = Some (Readable es)" .
    from attachImageToRequest_empty_stream [OF assms(1) this empty]
    obtain e w' where "attachImageToRequest E imageData
        [(''headers'', hs), (''imageName'', default_to (Str (js ''client-js.jpg'')) imageName)] w1
        = Some (Inl e, w')" "trace w' = trace w1"
      by blast
    with a Inr t1 show ?thesis
      by (simp add: addProfilePicture_def Let_def)
  qed
qed

text \<open>
  C8. In a server-like environment, with a readable stream as the image payload,
  \<open>attachImageToRequest\<close> drains the stream completely. A stream that emits chunks
  of data and then signals its end is drained into the buffer that holds all these
  chunks, in order. When that buffer is not empty, \<open>attachImageToRequest\<close> returns,
  without an exchange with the transport, a fragment whose \<open>data\<close> is the encoding of
  the form (with the entry \<open>JSON\<close> first when \<open>otherData\<close> is given) that ends
  with the entry \<open>image\<close>, holding that buffer with its length as the known length;
  the stream is then left with nothing to emit. When the buffer has length zero,
  \<open>attachImageToRequest\<close> throws the error "Provided Readable stream has no data."
  without an exchange with the transport, and \<open>addProfilePicture\<close>, which calls it
  before \<open>makeRequest\<close>, throws without having issued a request. The call stays
  pending exactly when the stream never signals its end, and what is drained is never
  anything but the chunks emitted before the end.
\<close>

theorem attachImageToRequest_stream:
  assumes "isNode E" and "kind_of (heap w) imageData = Some (Readable es)"
  shows "(\<forall>chunks rest. es = map Data chunks @ End # rest \<longrightarrow>
            drain es [] = Some (concat chunks)
          \<and> (concat chunks \<noteq> [] \<longrightarrow>
               (\<exists>fragment w'.
                  attachImageToRequest E imageData opts w = Some (Inr fragment, w')
                \<and> trace w' = trace w
                \<and> kind_of (heap w') (field (heap w') fragment ''data'')
                    = Some (Buffer (getBuffer E
                        (appendDataToFormData
                           (default_to (Str (js ''client-js.jpg'')) (lookup opts ''imageName''))
                           (if truthy (lookup opts ''otherData'')
                            then [(''JSON'',
                                   Text (stringify E
                                           (if lookup opts ''headers'' = Undefined
                                            then heap w @ [\<lparr>kind = PlainObject, props = []\<rparr>]
                                            else heap w)
                                           (lookup opts ''otherData'')),
                                   None)]
                            else [])
                           (Bytes (concat chunks)) (length (concat chunks)))))
                \<and> kind_of (heap w') imageData = Some (Readable [])))
          \<and> (concat chunks = [] \<longrightarrow>
               (\<exists>e w'. attachImageToRequest E imageData opts w = Some (Inl e, w')
                  \<and> field (heap w') e ''message''
                      = Str (js ''Provided Readable stream has no data.'')
                  \<and> trace w' = trace w)
             \<and> (\<exists>e w'. addProfilePicture E baseURL username authToken imageData imageName w
                          = Some (Inl e, w')
                  \<and> trace w' = trace w)))
       \<and> ((attachImageToRequest E imageData opts w = None) = (End \<notin> set es))
       \<and> (\<forall>buffer. drain es [] = Some buffer \<longrightarrow>
            (\<exists>chunks rest. es = map Data chunks @ End # rest \<and> buffer = concat chunks))"
proof (rule conjI [OF _ conjI])
  show "\<forall>chunks rest. es = map Data chunks @ End # rest \<longrightarrow>
            drain es [] = Some (concat chunks)
          \<and> (concat chunks \<noteq> [] \<longrightarrow>
               (\<exists>fragment w'.
                  attachImageToRequest E imageData opts w = Some (Inr fragment, w')
                \<and> trace w' = trace w
                \<and> kind_of (heap w') (field (heap w') fragment ''data'')
                    = Some (Buffer (getBuffer E
                        (appendDataToFormData
                           (default_to (Str (js ''client-js.jpg'')) (lookup opts ''imageName''))
                           (if truthy (lookup opts ''otherData'')
                            then [(''JSON'',
                                   Text (stringify E
                                           (if lookup opts ''headers'' = Undefined
                                            then heap w @ [\<lparr>kind = PlainObject, props = []\<rparr>]
                                            else heap w)
                                           (lookup opts ''otherData'')),
                                   None)]
                            else [])
                           (Bytes (concat chunks)) (length (concat chunks)))))
                \<and> kind_of (heap w') imageData = Some (Readable [])))
          \<and> (concat chunks = [] \<longrightarrow>
               (\<exists>e w'. attachImageToRequest E imageData opts w = Some (Inl e, w')
                  \<and> field (heap w') e ''message''
                      = Str (js ''Provided Readable stream has no data.'')
                  \<and> trace w' = trace w)
             \<and> (\<exists>e w'. addProfilePicture E baseURL username authToken imageData imageName w
                          = Some (Inl e, w')
                  \<and> trace w' = trace w))"
  proof (intro allI impI conjI)
    fix chunks rest assume es: "es = map Data chunks @ End # rest"
    then show d: "drain es [] = Some (concat chunks)"
      by (simp add: drain_stream)
    {
      assume "concat chunks \<noteq> []"
      with assms d show "\<exists>fragment w'.
                  attachImageToRequest E imageData opts w = Some (Inr fragment, w')
                \<and> trace w' = trace w
                \<and> kind_of (heap w') (field (heap w') fragment ''data'')
                    = Some (Buffer (getBuffer E
                        (appendDataToFormData
                           (default_to (Str (js ''client-js.jpg'')) (lookup opts ''imageName''))
                           (if truthy (lookup opts ''otherData'')
                            then [(''JSON'',
                                   Text (stringify E
                                           (if lookup opts ''headers'' = Undefined
                                            then heap w @ [\<lparr>kind = PlainObject, props = []\<rparr>]
                                            else heap w)
                                           (lookup opts ''otherData'')),
                                   None)]
                            else [])
                           (Bytes (concat chunks)) (length (concat chunks)))))
                \<and> kind_of (heap w') imageData = Some (Readable [])"
        by (rule attachImageToRequest_data_stream)
    }
    {
      assume "concat chunks = []"
      with d have empty: "drain es [] = Some []"
        by simp
      with assms show "\<exists>e w'. attachImageToRequest E imageData opts w = Some (Inl e, w')
                  \<and> field (heap w') e ''message''
                      = Str (js ''Provided Readable stream has no data.'')
                  \<and> trace w' = trace w"
        by (rule attachImageToRequest_empty_stream)
      from assms empty
      show "\<exists>e w'. addProfilePicture E baseURL username authToken imageData imageName w
                          = Some (Inl e, w')
                  \<and> trace w' = trace w"
        by (rule addProfilePicture_empty_stream)
    }
  qed
next
  show "(attachImageToRequest E imageData opts w = None) = (End \<notin> set es)"
  proof (cases "drain es []")
    case None
    with assms have "attachImageToRequest E imageData opts w = None"
      by (rule attachImageToRequest_pending)
    with None show ?thesis
      by (simp add: drain_None)
  next
    case (Some buffer)
    have "\<exists>res. attachImageToRequest E imageData opts w = Some res"
    proof (cases "buffer = []")
      case True
      with Some attachImageToRequest_empty_stream [OF assms, of opts] show ?thesis
        by auto
    next
      case False
      with Some attachImageToRequest_data_stream [OF assms, of buffer opts] show ?thesis
        by blast
    qed
    with Some drain_None [of es "[]"] show ?thesis
      by auto
  qed
next
  show "\<forall>buffer. drain es [] = Some buffer \<longrightarrow>
            (\<exists>chunks rest. es = map Data chunks @ End # rest \<and> buffer = concat chunks)"
    using drain_Some [of es "[]"] by simp
qed

text \<open>
  At a stream that emits the chunks 1, 2 and 3 and then ends, where the form encoder of
  \<open>payload_env\<close> gives the buffer 1, 2, 3; at a stream that emits a chunk and does
  not end; and at a stream that ends without data.
\<close>

theorem attachImageToRequest_stream_witness:
  "isNode payload_env
   \<and> kind_of (heap (stream_world [Data [1, 2], Data [3], End])) (Ref 0)
       = Some (Readable [Data [1, 2], Data [3], End])
   \<and> drain [Data [1, 2], Data [3], End] [] = Some [1, 2, 3]
   \<and> (\<exists>fragment w'.
        attachImageToRequest payload_env (Ref 0) [] (stream_world [Data [1, 2], Data [3], End])
          = Some (Inr fragment, w')
        \<and> trace w' = []
        \<and> kind_of (heap w') (field (heap w') fragment ''data'') = Some (Buffer [1, 2, 3])
        \<and> kind_of (heap w') (Ref 0) = Some (Readable []))
   \<and> kind_of (heap (stream_world [Data [1]])) (Ref 0) = Some (Readable [Data [1]])
   \<and> attachImageToRequest payload_env (Ref 0) [] (stream_world [Data [1]]) = None
   \<and> isNode (example_env answer_success)
   \<and> kind_of (heap empty_stream_world) (Ref 0) = Some (Readable [End])
   \<and> drain [End] [] = Some []
   \<and> (\<exists>e w'. attachImageToRequest (example_env answer_success) (Ref 0) [] empty_stream_world
                = Some (Inl e, w')
          \<and> field (heap w') e ''message'' = Str (js ''Provided Readable stream has no data.'')
          \<and> trace w' = trace empty_stream_world)
   \<and> (\<exists>e w'. addProfilePicture (example_env answer_success) (Str (js ''http://host''))
                (Str (js ''alice'')) (Str (js ''token'')) (Ref 0) Undefined empty_stream_world
                = Some (Inl e, w')
          \<and> trace w' = trace empty_stream_world)"
proof -
  let ?es = "[Data [1, 2], Data [3], End]"
  have p: "isNode payload_env"
    by (simp add: payload_env_def)
  have s: "kind_of (heap (stream_world ?es)) (Ref 0) = Some (Readable ?es)"
    by (simp add: stream_world_def kind_of_def)
  have s0: "trace (stream_world ?es) = []"
    by (simp add: stream_world_def)
  have c: "?es = map Data [[1, 2], [3]] @ End # []"
    by simp
  have o: "kind_of (heap (stream_world [Data [1]])) (Ref 0) = Some (Readable [Data [1]])"
    by (simp add: stream_world_def kind_of_def)
  have n: "isNode (example_env answer_success)"
    by (simp add: example_env_def)
  have k: "kind_of (heap empty_stream_world) (Ref 0) = Some (Readable [End])"
    by (simp add: empty_stream_world_def kind_of_def)
  have e: "[End] = map Data [] @ End # []"
    by simp
  note data = attachImageToRequest_stream [OF p s, of "[]" "Str (js ''http://host'')"
      "Str (js ''alice'')" "Str (js ''token'')" Undefined, THEN conjunct1, rule_format, OF c]
  from data have drained: "drain ?es [] = Some [1, 2, 3]"
    by simp
  from data have fragment: "\<exists>fragment w'.
        attachImageToRequest payload_env (Ref 0) [] (stream_world ?es) = Some (Inr fragment, w')
        \<and> trace w' = []
        \<and> kind_of (heap w') (field (heap w') fragment ''data'') = Some (Buffer [1, 2, 3])
        \<and> kind_of (heap w') (Ref 0) = Some (Readable [])"
    by (auto simp add: s0 payload_env_def appendDataToFormData_def truthy_def)
  from attachImageToRequest_stream [OF p o, of "[]" "Str (js ''http://host'')"
      "Str (js ''alice'')" "Str (js ''token'')" Undefined, THEN conjunct2, THEN conjunct1]
  have pending: "attachImageToRequest payload_env (Ref 0) [] (stream_world [Data [1]]) = None"
    by simp
  note none = attachImageToRequest_stream [OF n k, of "[]" "Str (js ''http://host'')"
      "Str (js ''alice'')" "Str (js ''token'')" Undefined, THEN conjunct1, rule_format, OF e]
  from none have d: "drain [End] [] = Some []"
    by simp
  from none
  have empty: "(\<exists>e w'. attachImageToRequest (example_env answer_success) (Ref 0) [] empty_stream_world
                = Some (Inl e, w')
          \<and> field (heap w') e ''message'' = Str (js ''Provided Readable stream has no data.'')
          \<and> trace w' = trace empty_stream_world)
   \<and> (\<exists>e w'. addProfilePicture (example_env answer_success) (Str (js ''http://host''))
                (Str (js ''alice'')) (Str (js ''token'')) (Ref 0) Undefined empty_stream_world
                = Some (Inl e, w')
          \<and> trace w' = trace empty_stream_world)"
    by simp
  from p s drained fragment o pending n k d empty show ?thesis
    by blast
qed

subsection \<open>makeRequest\<close>

text \<open>
  C1, as the code has it. When the transport settles the request with a response whose
  decoded body is the envelope \<open>{status: "success", data: {username: "alice"}}\<close>,
  \<open>makeRequest\<close> resolves with that body, the whole envelope, and leaves the store
  as the transport left it. The envelope is not its \<open>data\<close>: taking the \<open>data\<close>
  field, \<open>{username: "alice"}\<close>, is left to the caller.
\<close>

theorem makeRequest_resolves_with_envelope:
  assumes "makeRequest E URL opts w = (r, w')" and "trace w' = trace w @ [x]"
    and "settled x = Inr response" and "is_object (settled_in x) response"
    and "field (settled_in x) response ''data'' = body" and "is_object (settled_in x) body"
    and "field (settled_in x) body ''status'' = Str (js ''success'')"
    and "field (settled_in x) body ''data'' = d"
    and "own_props (settled_in x) d = [(''username'', Str (js ''alice''))]"
  shows "r = Inr body \<and> heap w' = settled_in x \<and> body \<noteq> d
       \<and> field (heap w') body ''data'' = d"
proof -
  from is_objectD [OF assms(4)] obtain b where b: "response = Ref b" "b < length (settled_in x)"
    by blast
  from is_objectD [OF assms(6)] obtain c where c: "body = Ref c" "c < length (settled_in x)"
    by blast
  have ne: "js ''success'' \<noteq> js ''fail''"
    by (simp add: js_def)
  from makeRequest_exchange(1) [OF assms(1,2)] assms(3)
  have "(r, w') = try_catch (check_response response) (catch_clause E)
                    \<lparr>heap = settled_in x, trace = trace w @ [x]\<rparr>"
    by simp
  with assms(5,7) b c ne have "r = Inr body \<and> heap w' = settled_in x"
    by (simp add: try_catch_def check_response_def seq_def member_def readable_def ret_def)
  moreover from assms(7,9) have "body \<noteq> d"
    by (auto simp add: field_def)
  ultimately show ?thesis using assms(8) by simp
qed

text \<open>
  At the transport \<open>answer_success\<close>: the response is the object at address 3, its
  body the one at 4, and the body's \<open>data\<close> the one at 5.
\<close>

theorem makeRequest_resolves_with_envelope_witness:
  "fst (makeRequest (example_env answer_success) (js ''/users/alice'') [] loaded) = Inr (Ref 4)
   \<and> Ref 4 \<noteq> Ref 5"
proof -
  let ?run = "makeRequest (example_env answer_success) (js ''/users/alice'') [] loaded"
  obtain r w' where run: "?run = (r, w')"
    by fastforce
  then have w': "w' = snd ?run" and r: "r = fst ?run"
    by simp_all
  define x where "x = last (trace w')"
  have tr: "trace w' = trace loaded @ [x]"
    unfolding x_def w' by (simp add: eval_defs answer_success_def)
  have 1: "settled x = Inr (Ref 3)"
    unfolding x_def w' by (simp add: eval_defs answer_success_def)
  have 2: "is_object (settled_in x) (Ref 3)"
    unfolding x_def w' by (simp add: eval_defs answer_success_def is_object_def)
  have 3: "field (settled_in x) (Ref 3) ''data'' = Ref 4"
    unfolding x_def w' by (simp add: eval_defs answer_success_def)
  have 4: "is_object (settled_in x) (Ref 4)"
    unfolding x_def w' by (simp add: eval_defs answer_success_def is_object_def)
  have 5: "field (settled_in x) (Ref 4) ''status'' = Str (js ''success'')"
    unfolding x_def w' by (simp add: eval_defs answer_success_def)
  have 6: "field (settled_in x) (Ref 4) ''data'' = Ref 5"
    unfolding x_def w' by (simp add: eval_defs answer_success_def)
  have 7: "own_props (settled_in x) (Ref 5) = [(''username'', Str (js ''alice''))]"
    unfolding x_def w' by (simp add: eval_defs answer_success_def)
  from makeRequest_resolves_with_envelope [OF run tr 1 2 3 4 5 6 7] r
  show ?thesis by simp
qed

text \<open>
  Read as "resolves with the \<open>data\<close> field", C1 fails at that transport: what
  \<open>makeRequest\<close> resolves with is the object with the properties \<open>status\<close> and
  \<open>data\<close>, not the object \<open>{username: "alice"}\<close> that its \<open>data\<close> refers to.
\<close>

theorem makeRequest_envelope_counterexample:
  "fst (makeRequest (example_env answer_success) (js ''/users/alice'') [] loaded) = Inr (Ref 4)
   \<and> own_props (heap (snd (makeRequest (example_env answer_success) (js ''/users/alice'') [] loaded)))
        (Ref 4)
       = [(''status'', Str (js ''success'')), (''data'', Ref 5)]
   \<and> own_props (heap (snd (makeRequest (example_env answer_success) (js ''/users/alice'') [] loaded)))
        (Ref 5)
       = [(''username'', Str (js ''alice''))]"
  by (simp add: eval_defs answer_success_def js_def)

text \<open>
  C2. When the transport rejects with an error (an object that is not itself a
  \<open>fail\<close> envelope and not a \<open>DOMException\<close>) carrying a response with the HTTP
  status 400 whose body is an envelope with the status \<open>fail\<close>, \<open>makeRequest\<close>
  throws that body, which then has the \<open>errorCode\<close> 400 and the \<open>data\<close> and
  \<open>status\<close> it had.
\<close>

theorem makeRequest_fail_envelope:
  assumes "makeRequest E URL opts w = (r, w')" and "trace w' = trace w @ [x]"
    and "settled x = Inl error" and "is_object (settled_in x) error"
    and "field (settled_in x) error ''status'' \<noteq> Str (js ''fail'')"
    and "kind_of (settled_in x) error \<noteq> Some DOMException"
    and "field (settled_in x) error ''response'' = response" and "is_object (settled_in x) response"
    and "field (settled_in x) response ''status'' = Num 400"
    and "field (settled_in x) response ''data'' = body" and "is_object (settled_in x) body"
    and "field (settled_in x) body ''status'' = Str (js ''fail'')"
  shows "r = Inl body \<and> field (heap w') body ''errorCode'' = Num 400
         \<and> field (heap w') body ''data'' = field (settled_in x) body ''data''
         \<and> field (heap w') body ''status'' = Str (js ''fail'')"
proof -
  from is_objectD [OF assms(4)] obtain a where a: "error = Ref a" "a < length (settled_in x)"
    by blast
  from is_objectD [OF assms(8)] obtain b where b: "response = Ref b" "b < length (settled_in x)"
    by blast
  from is_objectD [OF assms(11)] obtain c where c: "body = Ref c" "c < length (settled_in x)"
    by blast
  have nonempty: "js ''fail'' \<noteq> []"
    by (simp add: js_def)
  from makeRequest_exchange(1) [OF assms(1,2)] assms(3)
  have "(r, w') = catch_clause E error \<lparr>heap = settled_in x, trace = trace w @ [x]\<rparr>"
    by simp
  with assms(5-7,9,10,12) a b c nonempty show ?thesis
    by (simp add: catch_clause_def classify_def seq_def member_def readable_def ret_def raise_def
          instanceof_DOMException_def kind_of_def truthy_def assign_def field_def own_props_def)
qed

text \<open>
  At the transport \<open>reject_400\<close>: the error is the object at address 3, its response
  the one at 4, the body the one at 5, and the body's \<open>data\<close>,
  \<open>{errorReason: "X", errorMessage: "Y"}\<close>, the one at 6.
\<close>

theorem makeRequest_fail_envelope_witness:
  "fst (makeRequest (example_env reject_400) (js ''/users'') [] loaded) = Inl (Ref 5)
   \<and> field (heap (snd (makeRequest (example_env reject_400) (js ''/users'') [] loaded))) (Ref 5)
        ''errorCode'' = Num 400
   \<and> field (heap (snd (makeRequest (example_env reject_400) (js ''/users'') [] loaded))) (Ref 5)
        ''data'' = Ref 6"
proof -
  let ?run = "makeRequest (example_env reject_400) (js ''/users'') [] loaded"
  obtain r w' where run: "?run = (r, w')"
    by fastforce
  then have w': "w' = snd ?run" and r: "r = fst ?run"
    by simp_all
  define x where "x = last (trace w')"
  have tr: "trace w' = trace loaded @ [x]"
    unfolding x_def w' by (simp add: eval_defs reject_400_def js_def)
  have 1: "settled x = Inl (Ref 3)"
    unfolding x_def w' by (simp add: eval_defs reject_400_def js_def)
  have 2: "is_object (settled_in x) (Ref 3)"
    unfolding x_def w' by (simp add: eval_defs reject_400_def is_object_def js_def)
  have 3: "field (settled_in x) (Ref 3) ''status'' \<noteq> Str (js ''fail'')"
    unfolding x_def w' by (simp add: eval_defs reject_400_def js_def)
  have 4: "kind_of (settled_in x) (Ref 3) \<noteq> Some DOMException"
    unfolding x_def w' by (simp add: eval_defs reject_400_def js_def)
  have 5: "field (settled_in x) (Ref 3) ''response'' = Ref 4"
    unfolding x_def w' by (simp add: eval_defs reject_400_def js_def)
  have 6: "is_object (settled_in x) (Ref 4)"
    unfolding x_def w' by (simp add: eval_defs reject_400_def is_object_def js_def)
  have 7: "field (settled_in x) (Ref 4) ''status'' = Num 400"
    unfolding x_def w' by (simp add: eval_defs reject_400_def js_def)
  have 8: "field (settled_in x) (Ref 4) ''data'' = Ref 5"
    unfolding x_def w' by (simp add: eval_defs reject_400_def js_def)
  have 9: "is_object (settled_in x) (Ref 5)"
    unfolding x_def w' by (simp add: eval_defs reject_400_def is_object_def js_def)
  have 10: "field (settled_in x) (Ref 5) ''status'' = Str (js ''fail'')"
    unfolding x_def w' by (simp add: eval_defs reject_400_def js_def)
  have 11: "field (settled_in x) (Ref 5) ''data'' = Ref 6"
    unfolding x_def w' by (simp add: eval_defs reject_400_def js_def)
  from makeRequest_fail_envelope [OF run tr 1 2 3 4 5 6 7 8 9 10] r w' 11
  show ?thesis by simp
qed

text \<open>
  C7. When the transport rejects with a DNS failure (an error carrying the request, no
  response, and the code \<open>ENOTFOUND\<close>), \<open>makeRequest\<close> throws the module constant
  \<open>CONNECTION_ERROR\<close>: no error object is made for the call, the store is left as the
  transport left it, and the objects that were there before the call are unchanged. Any
  two such calls, whatever their URLs, options and worlds, throw the identical value.
\<close>

theorem makeRequest_connection_error:
  assumes "makeRequest E URL opts w = (r, w')" and "trace w' = trace w @ [x]"
    and "dns_failure x"
    and "makeRequest E URL2 opts2 w2 = (r2, w2')" and "trace w2' = trace w2 @ [x2]"
    and "dns_failure x2"
  shows "r = Inl (CONNECTION_ERROR E) \<and> r2 = r
       \<and> heap w' = settled_in x \<and> take (length (heap w)) (heap w') = heap w"
proof -
  have thrown: "ra = Inl (CONNECTION_ERROR E) \<and> heap wa' = settled_in xa"
    if "makeRequest E U os wa = (ra, wa')" and "trace wa' = trace wa @ [xa]" and "dns_failure xa"
    for U os wa ra wa' xa
  proof -
    from that(3) obtain error where s: "settled xa = Inl error"
      and e: "is_object (settled_in xa) error"
        "field (settled_in xa) error ''status'' \<noteq> Str (js ''fail'')"
        "kind_of (settled_in xa) error \<noteq> Some DOMException"
        "\<not> truthy (field (settled_in xa) error ''response'')"
        "truthy (field (settled_in xa) error ''request'')"
        "field (settled_in xa) error ''code'' = Str (js ''ENOTFOUND'')"
      by (auto simp add: dns_failure_def split: sum.splits)
    from is_objectD [OF e(1)] obtain a where a: "error = Ref a" "a < length (settled_in xa)"
      by blast
    from makeRequest_exchange(1) [OF that(1,2)] s
    have "(ra, wa') = catch_clause E error \<lparr>heap = settled_in xa, trace = trace wa @ [xa]\<rparr>"
      by simp
    with e a show ?thesis
      by (simp add: catch_clause_def classify_def seq_def member_def readable_def ret_def
            raise_def instanceof_DOMException_def kind_of_def)
  qed
  from thrown [OF assms(1-3)] thrown [OF assms(4-6)] makeRequest_exchange(2) [OF assms(1,2)]
  show ?thesis by simp
qed

text \<open>
  At the transport \<open>reject_dns\<close>: two calls, the second in the world the first left,
  throw the object at address 0, which is the module constant.
\<close>

theorem makeRequest_connection_error_witness:
  "fst (makeRequest (example_env reject_dns) (js ''/users'') [] loaded) = Inl (Ref 0)
   \<and> fst (makeRequest (example_env reject_dns) (js ''/feed'') [(''method'', Str (js ''post''))]
            (snd (makeRequest (example_env reject_dns) (js ''/users'') [] loaded)))
       = Inl (Ref 0)
   \<and> fst (load_module \<lparr>heap = [], trace = []\<rparr>) = Inr (Ref 0)"
proof -
  let ?E = "example_env reject_dns"
  let ?run = "makeRequest ?E (js ''/users'') [] loaded"
  obtain r w' where run: "?run = (r, w')"
    by fastforce
  then have w': "w' = snd ?run" and r: "r = fst ?run"
    by simp_all
  let ?run2 = "makeRequest ?E (js ''/feed'') [(''method'', Str (js ''post''))] w'"
  obtain r2 w2' where run2: "?run2 = (r2, w2')"
    by fastforce
  then have w2': "w2' = snd ?run2" and r2: "r2 = fst ?run2"
    by simp_all
  define x where "x = last (trace w')"
  define x2 where "x2 = last (trace w2')"
  have tr: "trace w' = trace loaded @ [x]"
    unfolding x_def w' by (simp add: eval_defs reject_dns_def js_def)
  have d: "dns_failure x"
    unfolding x_def w'
    by (simp add: dns_failure_def eval_defs reject_dns_def is_object_def js_def)
  have tr2: "trace w2' = trace w' @ [x2]"
    unfolding x2_def w2' w' by (simp add: eval_defs reject_dns_def js_def)
  have d2: "dns_failure x2"
    unfolding x2_def w2' w'
    by (simp add: dns_failure_def eval_defs reject_dns_def is_object_def js_def)
  have c: "CONNECTION_ERROR ?E = Ref 0"
    by (simp add: example_env_def)
  have l: "fst (load_module \<lparr>heap = [], trace = []\<rparr>) = Inr (Ref 0)"
    by (simp add: load_module_def new_error_def new_object_def)
  from makeRequest_connection_error [OF run tr d run2 tr2 d2] r r2 w' c l
  show ?thesis by simp
qed

subsection \<open>The exported operations\<close>

lemma answered_whole: "makeRequest E URL opts w = (Inr v, w') \<Longrightarrow> answered w w' True v"
  using makeRequest_Inr [of E URL opts w v w'] by (auto simp add: answered_def)

lemma answered_data:
  assumes "seq (makeRequest E URL opts) (\<lambda>response. member response ''data'') w = (Inr v, w')"
  shows "answered w w' False v"
proof -
  from assms obtain body w1 where m: "makeRequest E URL opts w = (Inr body, w1)"
    and d: "member body ''data'' w1 = (Inr v, w')"
    by (auto simp add: seq_def split: prod.splits sum.splits)
  from makeRequest_Inr [OF m] obtain x response where
    x: "trace w1 = trace w @ [x]" "heap w1 = settled_in x" "settled x = Inr response"
       "body = field (settled_in x) response ''data''" "readable (settled_in x) body"
       "field (settled_in x) body ''status'' \<noteq> Str (js ''fail'')"
    by blast
  from d x(2,5) have "w' = w1 \<and> v = field (settled_in x) body ''data''"
    by (auto simp add: member_def ret_def)
  with x show ?thesis
    by (auto simp add: answered_def)
qed

lemma answered_after:
  assumes "seq pre f w = (Inr v, w')" and "quiet pre"
    and "\<And>a w1. f a w1 = (Inr v, w') \<Longrightarrow> answered w1 w' whole v"
  shows "answered w w' whole v"
proof -
  from assms(1) obtain a w1 where p: "pre w = (Inr a, w1)" and f: "f a w1 = (Inr v, w')"
    by (auto simp add: seq_def split: prod.splits sum.splits)
  from quietD [OF assms(2) p] have "trace w1 = trace w" .
  with assms(3) [OF f] show ?thesis
    by (simp add: answered_def)
qed

lemma getUser_answered:
  "getUser E baseURL username authToken w = (Inr v, w') \<Longrightarrow> answered w w' False v"
  unfolding getUser_def Let_def
  by (erule answered_after) (auto intro: answered_data)

lemma addUser_answered:
  "addUser E baseURL user w = (Inr v, w') \<Longrightarrow> answered w w' False v"
  unfolding addUser_def by (rule answered_data)

lemma deleteUser_answered:
  "deleteUser E baseURL username authToken w = (Inr v, w') \<Longrightarrow> answered w w' True v"
  unfolding deleteUser_def
  by (erule answered_after) (auto intro: answered_whole)

lemma updateUser_answered:
  "updateUser E baseURL username user authToken w = (Inr v, w') \<Longrightarrow> answered w w' False v"
  unfolding updateUser_def
  by (erule answered_after) (auto intro: answered_data)

lemma searchUsers_answered:
  "searchUsers E baseURL pattern opts w = (Inr v, w') \<Longrightarrow> answered w w' False v"
  unfolding searchUsers_def Let_def
  by (erule answered_after) (auto intro: answered_data)

lemma getUsers_answered:
  "getUsers E baseURL opts w = (Inr v, w') \<Longrightarrow> answered w w' False v"
  unfolding getUsers_def by (rule searchUsers_answered)

lemma addPostBookmark_answered:
  "addPostBookmark E baseURL username postID authToken w = (Inr v, w') \<Longrightarrow> answered w w' True v"
  unfolding addPostBookmark_def
  by (erule answered_after) (auto intro: answered_whole)

lemma getUserBookmarks_answered:
  "getUserBookmarks E baseURL username authToken w = (Inr v, w') \<Longrightarrow> answered w w' False v"
  unfolding getUserBookmarks_def
  by (erule answered_after) (auto intro: answered_data)

lemma deleteBookmark_answered:
  "deleteBookmark E baseURL username postID authToken w = (Inr v, w') \<Longrightarrow> answered w w' True v"
  unfolding deleteBookmark_def
  by (erule answered_after) (auto intro: answered_whole)

lemma removeProfilePicture_answered:
  "removeProfilePicture E baseURL username authToken w = (Inr v, w') \<Longrightarrow> answered w w' True v"
  unfolding removeProfilePicture_def
  by (erule answered_after) (auto intro: answered_whole)

lemma subscribeToChannel_answered:
  "subscribeToChannel E baseURL username channelname authToken w = (Inr v, w')
     \<Longrightarrow> answered w w' False v"
  unfolding subscribeToChannel_def
  apply (erule answered_after)
   apply simp
  apply (erule answered_after)
   apply simp
  apply (erule answered_data)
  done

lemma getFeedPosts_answered:
  "getFeedPosts E baseURL username authToken opts w = (Inr v, w') \<Longrightarrow> answered w w' False v"
  unfolding getFeedPosts_def Let_def
  apply (erule answered_after)
   apply simp
  apply (erule answered_after)
   apply simp
  apply (erule answered_after)
   apply simp
  apply (erule answered_data)
  done

lemma addProfilePicture_answered:
  assumes "addProfilePicture E baseURL username authToken imageData imageName w = Some (Inr v, w')"
  shows "answered w w' False v"
proof -
  from assms obtain hs w1 fragment w2 where
    a: "attachAuthTokenToHeader authToken Undefined w = (Inr hs, w1)"
    and i: "attachImageToRequest E imageData
              [(''headers'', hs), (''imageName'', default_to (Str (js ''client-js.jpg'')) imageName)] w1
            = Some (Inr fragment, w2)"
    and m: "seq (spread fragment)
              (\<lambda>fs. seq (makeRequest E
                            (to_string baseURL @ js ''/users/'' @ to_string username @ js ''/picture'')
                            (merge_props [(''method'', Str (js ''put''))] fs))
                     (\<lambda>response. member response ''data'')) w2 = (Inr v, w')"
    by (auto simp add: addProfilePicture_def Let_def split: prod.splits sum.splits option.splits)
  from quietD [OF quiet_attachAuthTokenToHeader a] attachImageToRequest_trace [OF i]
  have t: "trace w2 = trace w" by simp
  from m have "answered w2 w' False v"
    by (rule answered_after) (auto intro: answered_data)
  with t show ?thesis
    by (simp add: answered_def)
qed

lemma refused_trace: "refused w1 w' e \<Longrightarrow> trace w1 = trace w \<Longrightarrow> refused w w' e"
  unfolding refused_def by auto

lemma refused_no_exchange: "trace w' = trace w \<Longrightarrow> refused w w' e"
  unfolding refused_def by auto

lemma refused_data:
  assumes "seq (makeRequest E URL opts) (\<lambda>response. member response ''data'') w = (Inl e, w')"
  shows "refused w w' e"
proof (cases "makeRequest E URL opts w")
  case (Pair r w1)
  show ?thesis
  proof (cases r)
    case (Inl e1)
    with Pair assms have "makeRequest E URL opts w = (Inl e, w')"
      by (simp add: seq_def)
    then show ?thesis by (rule makeRequest_Inl_fail)
  next
    case (Inr body)
    with Pair have m: "makeRequest E URL opts w = (Inr body, w1)" by simp
    from makeRequest_Inr [OF m] have "readable (heap w1) body"
      by auto
    with assms m show ?thesis
      by (simp add: seq_def member_def ret_def)
  qed
qed

lemma refused_after:
  assumes "seq pre f w = (Inl e, w')" and "quiet pre"
    and "\<And>a w1. f a w1 = (Inl e, w') \<Longrightarrow> refused w1 w' e"
  shows "refused w w' e"
proof (cases "pre w")
  case (Pair r w1)
  from quietD [OF assms(2) Pair] have t: "trace w1 = trace w" .
  show ?thesis
  proof (cases r)
    case (Inl e1)
    with Pair assms(1) have "w' = w1"
      by (simp add: seq_def)
    with t show ?thesis
      by (simp add: refused_no_exchange)
  next
    case (Inr a)
    with Pair assms(1) have "f a w1 = (Inl e, w')"
      by (simp add: seq_def)
    from assms(3) [OF this] t show ?thesis
      by (rule refused_trace)
  qed
qed

lemma getUser_refused:
  "getUser E baseURL username authToken w = (Inl e, w') \<Longrightarrow> refused w w' e"
  unfolding getUser_def Let_def
  by (erule refused_after) (auto intro: refused_data)

lemma addUser_refused:
  "addUser E baseURL user w = (Inl e, w') \<Longrightarrow> refused w w' e"
  unfolding addUser_def by (rule refused_data)

lemma deleteUser_refused:
  "deleteUser E baseURL username authToken w = (Inl e, w') \<Longrightarrow> refused w w' e"
  unfolding deleteUser_def
  by (erule refused_after) (auto intro: makeRequest_Inl_fail)

lemma updateUser_refused:
  "updateUser E baseURL username user authToken w = (Inl e, w') \<Longrightarrow> refused w w' e"
  unfolding updateUser_def
  by (erule refused_after) (auto intro: refused_data)

lemma searchUsers_refused:
  "searchUsers E baseURL pattern opts w = (Inl e, w') \<Longrightarrow> refused w w' e"
  unfolding searchUsers_def Let_def
  by (erule refused_after) (auto intro: refused_data)

lemma getUsers_refused:
  "getUsers E baseURL opts w = (Inl e, w') \<Longrightarrow> refused w w' e"
  unfolding getUsers_def by (rule searchUsers_refused)

lemma addPostBookmark_refused:
  "addPostBookmark E baseURL username postID authToken w = (Inl e, w') \<Longrightarrow> refused w w' e"
  unfolding addPostBookmark_def
  by (erule refused_after) (auto intro: makeRequest_Inl_fail)

lemma getUserBookmarks_refused:
  "getUserBookmarks E baseURL username authToken w = (Inl e, w') \<Longrightarrow> refused w w' e"
  unfolding getUserBookmarks_def
  by (erule refused_after) (auto intro: refused_data)

lemma deleteBookmark_refused:
  "deleteBookmark E baseURL username postID authToken w = (Inl e, w') \<Longrightarrow> refused w w' e"
  unfolding deleteBookmark_def
  by (erule refused_after) (auto intro: makeRequest_Inl_fail)

lemma removeProfilePicture_refused:
  "removeProfilePicture E baseURL username authToken w = (Inl e, w') \<Longrightarrow> refused w w' e"
  unfolding removeProfilePicture_def
  by (erule refused_after) (auto intro: makeRequest_Inl_fail)

lemma subscribeToChannel_refused:
  "subscribeToChannel E baseURL username channelname authToken w = (Inl e, w')
     \<Longrightarrow> refused w w' e"
  unfolding subscribeToChannel_def
  apply (erule refused_after)
   apply simp
  apply (erule refused_after)
   apply simp
  apply (erule refused_data)
  done

lemma getFeedPosts_refused:
  "getFeedPosts E baseURL username authToken opts w = (Inl e, w') \<Longrightarrow> refused w w' e"
  unfolding getFeedPosts_def Let_def
  apply (erule refused_after)
   apply simp
  apply (erule refused_after)
   apply simp
  apply (erule refused_after)
   apply simp
  apply (erule refused_data)
  done

lemma addProfilePicture_refused:
  assumes "addProfilePicture E baseURL username authToken imageData imageName w = Some (Inl e, w')"
  shows "refused w w' e"
proof (cases "attachAuthTokenToHeader authToken Undefined w")
  case (Pair r w1)
  from quietD [OF quiet_attachAuthTokenToHeader Pair] have t1: "trace w1 = trace w" .
  show ?thesis
  proof (cases r)
    case (Inl e1)
    with Pair assms t1 show ?thesis
      by (simp add: addProfilePicture_def Let_def refused_no_exchange)
  next
    case (Inr hs)
    let ?img = "attachImageToRequest E imageData
              [(''headers'', hs), (''imageName'', default_to (Str (js ''client-js.jpg'')) imageName)] w1"
    from Pair Inr assms obtain r2 w2 where i: "?img = Some (r2, w2)"
      by (cases ?img) (auto simp add: addProfilePicture_def Let_def)
    from attachImageToRequest_trace [OF i] t1 have t2: "trace w2 = trace w" by simp
    show ?thesis
    proof (cases r2)
      case (Inl e2)
      with Pair Inr i assms t2 show ?thesis
        by (simp add: addProfilePicture_def Let_def refused_no_exchange)
    next
      case fr: (Inr fragment)
      with Pair Inr i assms have "seq (spread fragment)
              (\<lambda>fs. seq (makeRequest E
                            (to_string baseURL @ js ''/users/'' @ to_string username @ js ''/picture'')
                            (merge_props [(''method'', Str (js ''put''))] fs))
                     (\<lambda>response. member response ''data'')) w2 = (Inl e, w')"
        by (simp add: addProfilePicture_def Let_def)
      then have "refused w2 w' e"
        by (rule refused_after) (auto intro: refused_data)
      then show ?thesis using t2
        by (rule refused_trace)
    qed
  qed
qed

text \<open>
  C3, as the code has it. A call of an exported resource operation that resolves had one
  exchange with the transport, which settled it with a response whose body does not have
  the status \<open>fail\<close> (nothing else about the body is tested), and nothing changed in
  the store afterwards. What it returns is the \<open>data\<close> field of that body for
  \<open>getUser\<close>, \<open>addUser\<close>, \<open>updateUser\<close>, \<open>searchUsers\<close>, \<open>getUsers\<close>,
  \<open>getUserBookmarks\<close>, \<open>addProfilePicture\<close>, \<open>getFeedPosts\<close> and
  \<open>subscribeToChannel\<close>, and the body itself, the whole envelope, for \<open>deleteUser\<close>,
  \<open>addPostBookmark\<close>, \<open>deleteBookmark\<close> and \<open>removeProfilePicture\<close>.

  A call that throws after its one exchange throws the envelope the transport handed
  over, in each of the three ways it can do so. When the transport settled with a
  response whose body is an envelope of status \<open>fail\<close>, the call throws that body,
  unchanged. When the transport rejected with an error (an object that is not itself a
  \<open>fail\<close> envelope and not a \<open>DOMException\<close>) carrying a response whose body is an
  object with a truthy \<open>status\<close> (\<open>fail\<close> or \<open>error\<close>, say), the call throws that
  body, which then has the HTTP status of the response as its \<open>errorCode\<close> and the
  \<open>status\<close> and \<open>data\<close> it had. When the transport rejected with a value that is
  itself an envelope of status \<open>fail\<close>, the call throws that value, unchanged.
\<close>

theorem call_outcome:
  assumes "call E baseURL operation w = Some (r, w')"
  shows "(\<forall>v. r = Inr v \<longrightarrow>
            (\<exists>x response body.
               trace w' = trace w @ [x] \<and> settled x = Inr response \<and> heap w' = settled_in x
             \<and> body = field (settled_in x) response ''data''
             \<and> readable (settled_in x) body
             \<and> field (settled_in x) body ''status'' \<noteq> Str (js ''fail'')
             \<and> v = (if returns_whole_body operation then body
                    else field (settled_in x) body ''data'')))
       \<and> (\<forall>e x response.
            r = Inl e \<and> trace w' = trace w @ [x] \<and> settled x = Inr response
            \<and> is_object (settled_in x) response
            \<and> is_object (settled_in x) (field (settled_in x) response ''data'')
            \<and> field (settled_in x) (field (settled_in x) response ''data'') ''status''
                = Str (js ''fail'')
            \<longrightarrow> e = field (settled_in x) response ''data'' \<and> heap w' = settled_in x)
       \<and> (\<forall>e x error response body.
            r = Inl e \<and> trace w' = trace w @ [x] \<and> settled x = Inl error
            \<and> is_object (settled_in x) error
            \<and> field (settled_in x) error ''status'' \<noteq> Str (js ''fail'')
            \<and> kind_of (settled_in x) error \<noteq> Some DOMException
            \<and> response = field (settled_in x) error ''response''
            \<and> is_object (settled_in x) response
            \<and> body = field (settled_in x) response ''data''
            \<and> is_object (settled_in x) body
            \<and> truthy (field (settled_in x) body ''status'')
            \<longrightarrow> e = body
              \<and> field (heap w') body ''errorCode'' = field (settled_in x) response ''status''
              \<and> field (heap w') body ''status'' = field (settled_in x) body ''status''
              \<and> field (heap w') body ''data'' = field (settled_in x) body ''data'')
       \<and> (\<forall>e x error.
            r = Inl e \<and> trace w' = trace w @ [x] \<and> settled x = Inl error
            \<and> field (settled_in x) error ''status'' = Str (js ''fail'')
            \<longrightarrow> e = error \<and> heap w' = settled_in x)"
proof -
  have thrown: "refused w w' e" if "r = Inl e" for e
    using assms that
    by (cases operation)
      (auto dest: getUser_refused addUser_refused updateUser_refused deleteUser_refused
         searchUsers_refused getUsers_refused addPostBookmark_refused getUserBookmarks_refused
         deleteBookmark_refused addProfilePicture_refused removeProfilePicture_refused
         getFeedPosts_refused subscribeToChannel_refused)
  show ?thesis
  proof (rule conjI [OF _ conjI [OF _ conjI]]; intro allI impI)
    fix v assume "r = Inr v"
    with assms have "answered w w' (returns_whole_body operation) v"
      by (cases operation)
        (auto dest: getUser_answered addUser_answered updateUser_answered deleteUser_answered
           searchUsers_answered getUsers_answered addPostBookmark_answered getUserBookmarks_answered
           deleteBookmark_answered addProfilePicture_answered removeProfilePicture_answered
           getFeedPosts_answered subscribeToChannel_answered)
    then show "\<exists>x response body.
                 trace w' = trace w @ [x] \<and> settled x = Inr response \<and> heap w' = settled_in x
               \<and> body = field (settled_in x) response ''data''
               \<and> readable (settled_in x) body
               \<and> field (settled_in x) body ''status'' \<noteq> Str (js ''fail'')
               \<and> v = (if returns_whole_body operation then body
                      else field (settled_in x) body ''data'')"
      by (simp add: answered_def)
  next
    fix e x response
    assume h: "r = Inl e \<and> trace w' = trace w @ [x] \<and> settled x = Inr response
              \<and> is_object (settled_in x) response
              \<and> is_object (settled_in x) (field (settled_in x) response ''data'')
              \<and> field (settled_in x) (field (settled_in x) response ''data'') ''status''
                  = Str (js ''fail'')"
    then have "refused w w' e"
      by (simp add: thrown)
    then have "\<forall>x response.
        trace w' = trace w @ [x] \<and> settled x = Inr response
        \<and> is_object (settled_in x) response
        \<and> is_object (settled_in x) (field (settled_in x) response ''data'')
        \<and> field (settled_in x) (field (settled_in x) response ''data'') ''status'' = Str (js ''fail'')
        \<longrightarrow> e = field (settled_in x) response ''data'' \<and> heap w' = settled_in x"
      unfolding refused_def by (rule conjunct1)
    with h show "e = field (settled_in x) response ''data'' \<and> heap w' = settled_in x"
      by blast
  next
    fix e x error response body
    assume h: "r = Inl e \<and> trace w' = trace w @ [x] \<and> settled x = Inl error
            \<and> is_object (settled_in x) error
            \<and> field (settled_in x) error ''status'' \<noteq> Str (js ''fail'')
            \<and> kind_of (settled_in x) error \<noteq> Some DOMException
            \<and> response = field (settled_in x) error ''response''
            \<and> is_object (settled_in x) response
            \<and> body = field (settled_in x) response ''data''
            \<and> is_object (settled_in x) body
            \<and> truthy (field (settled_in x) body ''status'')"
    then have "refused w w' e"
      by (simp add: thrown)
    then have "\<forall>x error response body.
        trace w' = trace w @ [x] \<and> settled x = Inl error
        \<and> is_object (settled_in x) error
        \<and> field (settled_in x) error ''status'' \<noteq> Str (js ''fail'')
        \<and> kind_of (settled_in x) error \<noteq> Some DOMException
        \<and> response = field (settled_in x) error ''response''
        \<and> is_object (settled_in x) response
        \<and> body = field (settled_in x) response ''data''
        \<and> is_object (settled_in x) body
        \<and> truthy (field (settled_in x) body ''status'')
        \<longrightarrow> e = body
          \<and> field (heap w') body ''errorCode'' = field (settled_in x) response ''status''
          \<and> field (heap w') body ''status'' = field (settled_in x) body ''status''
          \<and> field (heap w') body ''data'' = field (settled_in x) body ''data''"
      unfolding refused_def by (rule conjunct1 [OF conjunct2])
    from this [rule_format, of x error response body] h
    show "e = body
        \<and> field (heap w') body ''errorCode'' = field (settled_in x) response ''status''
        \<and> field (heap w') body ''status'' = field (settled_in x) body ''status''
        \<and> field (heap w') body ''data'' = field (settled_in x) body ''data''"
      by blast
  next
    fix e x error
    assume h: "r = Inl e \<and> trace w' = trace w @ [x] \<and> settled x = Inl error
            \<and> field (settled_in x) error ''status'' = Str (js ''fail'')"
    then have "refused w w' e"
      by (simp add: thrown)
    then have "\<forall>x error.
        trace w' = trace w @ [x] \<and> settled x = Inl error
        \<and> field (settled_in x) error ''status'' = Str (js ''fail'')
        \<longrightarrow> e = error \<and> heap w' = settled_in x"
      unfolding refused_def by (rule conjunct2 [OF conjunct2])
    with h show "e = error \<and> heap w' = settled_in x"
      by blast
  qed
qed

lemmas call_defs = getUser_def deleteUser_def attachAuthTokenToHeader_def is_space_def
  to_string_def

text \<open>
  At \<open>getUser\<close> and \<open>deleteUser\<close> against the transport \<open>answer_success\<close>, where
  the body is the object at address 5 and its \<open>data\<close> the one at 6; at \<open>getUser\<close>
  against the transport \<open>answer_fail\<close>, where the body is the object at address 5; at
  \<open>getUser\<close> against the transport \<open>reject_400\<close>, where the error is the object
  at address 4, its response the one at 5 and the body the one at 6; and at \<open>getUser\<close>
  against the transport \<open>reject_envelope\<close>, where the rejection is the object at
  address 4.
\<close>

theorem call_outcome_witness:
  "fst (the (call (example_env answer_success) (Str (js ''http://host''))
               (GetUser (Str (js ''alice'')) Undefined) loaded)) = Inr (Ref 6)
   \<and> fst (the (call (example_env answer_success) (Str (js ''http://host''))
               (DeleteUser (Str (js ''alice'')) (Str (js ''token''))) loaded)) = Inr (Ref 5)
   \<and> fst (the (call (example_env answer_fail) (Str (js ''http://host''))
               (GetUser (Str (js ''alice'')) Undefined) loaded)) = Inl (Ref 5)
   \<and> fst (the (call (example_env reject_400) (Str (js ''http://host''))
               (GetUser (Str (js ''alice'')) Undefined) loaded)) = Inl (Ref 6)
   \<and> field (heap (snd (the (call (example_env reject_400) (Str (js ''http://host''))
               (GetUser (Str (js ''alice'')) Undefined) loaded)))) (Ref 6) ''errorCode'' = Num 400
   \<and> field (heap (snd (the (call (example_env reject_400) (Str (js ''http://host''))
               (GetUser (Str (js ''alice'')) Undefined) loaded)))) (Ref 6) ''status''
       = Str (js ''fail'')
   \<and> fst (the (call (example_env reject_envelope) (Str (js ''http://host''))
               (GetUser (Str (js ''alice'')) Undefined) loaded)) = Inl (Ref 4)"
proof -
  let ?base = "Str (js ''http://host'')"
  let ?get = "getUser (example_env answer_success) ?base (Str (js ''alice'')) Undefined loaded"
  let ?del = "deleteUser (example_env answer_success) ?base (Str (js ''alice''))
                (Str (js ''token'')) loaded"
  let ?bad = "getUser (example_env answer_fail) ?base (Str (js ''alice'')) Undefined loaded"
  let ?rej = "getUser (example_env reject_400) ?base (Str (js ''alice'')) Undefined loaded"
  let ?env = "getUser (example_env reject_envelope) ?base (Str (js ''alice'')) Undefined loaded"
  define x where "x = last (trace (snd ?bad))"
  define y where "y = last (trace (snd ?rej))"
  define z where "z = last (trace (snd ?env))"
  have g: "call (example_env answer_success) ?base (GetUser (Str (js ''alice'')) Undefined) loaded
           = Some (fst ?get, snd ?get)"
    by simp
  have d: "call (example_env answer_success) ?base
             (DeleteUser (Str (js ''alice'')) (Str (js ''token''))) loaded
           = Some (fst ?del, snd ?del)"
    by simp
  have b: "call (example_env answer_fail) ?base (GetUser (Str (js ''alice'')) Undefined) loaded
           = Some (fst ?bad, snd ?bad)"
    by simp
  have c: "call (example_env reject_400) ?base (GetUser (Str (js ''alice'')) Undefined) loaded
           = Some (fst ?rej, snd ?rej)"
    by simp
  have f: "call (example_env reject_envelope) ?base (GetUser (Str (js ''alice'')) Undefined) loaded
           = Some (fst ?env, snd ?env)"
    by simp
  have g1: "fst ?get = Inr (Ref 6)"
    by (simp add: eval_defs call_defs answer_success_def js_def)
  have d1: "fst ?del = Inr (Ref 5)"
    by (simp add: eval_defs call_defs answer_success_def js_def)
  have b1: "\<exists>e. fst ?bad = Inl e"
    by (simp add: eval_defs call_defs answer_fail_def js_def)
  have b2: "trace (snd ?bad) = trace loaded @ [x]"
    unfolding x_def by (simp add: eval_defs call_defs answer_fail_def js_def)
  have b3: "settled x = Inr (Ref 4)"
    unfolding x_def by (simp add: eval_defs call_defs answer_fail_def js_def)
  have b4: "is_object (settled_in x) (Ref 4)"
    unfolding x_def by (simp add: eval_defs call_defs answer_fail_def js_def is_object_def)
  have b5: "field (settled_in x) (Ref 4) ''data'' = Ref 5"
    unfolding x_def by (simp add: eval_defs call_defs answer_fail_def js_def)
  have b6: "is_object (settled_in x) (Ref 5)"
    unfolding x_def by (simp add: eval_defs call_defs answer_fail_def js_def is_object_def)
  have b7: "field (settled_in x) (Ref 5) ''status'' = Str (js ''fail'')"
    unfolding x_def by (simp add: eval_defs call_defs answer_fail_def js_def)
  have c1: "\<exists>e. fst ?rej = Inl e"
    by (simp add: eval_defs call_defs reject_400_def js_def)
  have c2: "trace (snd ?rej) = trace loaded @ [y]"
    unfolding y_def by (simp add: eval_defs call_defs reject_400_def js_def)
  have c3: "settled y = Inl (Ref 4)"
    unfolding y_def by (simp add: eval_defs call_defs reject_400_def js_def)
  have c4: "is_object (settled_in y) (Ref 4)"
    unfolding y_def by (simp add: eval_defs call_defs reject_400_def js_def is_object_def)
  have c5: "field (settled_in y) (Ref 4) ''status'' \<noteq> Str (js ''fail'')"
    unfolding y_def by (simp add: eval_defs call_defs reject_400_def js_def)
  have c6: "kind_of (settled_in y) (Ref 4) \<noteq> Some DOMException"
    unfolding y_def by (simp add: eval_defs call_defs reject_400_def js_def)
  have c7: "Ref 5 = field (settled_in y) (Ref 4) ''response''"
    unfolding y_def by (simp add: eval_defs call_defs reject_400_def js_def)
  have c8: "is_object (settled_in y) (Ref 5)"
    unfolding y_def by (simp add: eval_defs call_defs reject_400_def js_def is_object_def)
  have c9: "Ref 6 = field (settled_in y) (Ref 5) ''data''"
    unfolding y_def by (simp add: eval_defs call_defs reject_400_def js_def)
  have c10: "is_object (settled_in y) (Ref 6)"
    unfolding y_def by (simp add: eval_defs call_defs reject_400_def js_def is_object_def)
  have c11: "field (settled_in y) (Ref 6) ''status'' = Str (js ''fail'')"
    unfolding y_def by (simp add: eval_defs call_defs reject_400_def js_def)
  have c12: "field (settled_in y) (Ref 5) ''status'' = Num 400"
    unfolding y_def by (simp add: eval_defs call_defs reject_400_def js_def)
  have c13: "truthy (Str (js ''fail''))"
    by (simp add: truthy_def js_def)
  have f1: "\<exists>e. fst ?env = Inl e"
    by (simp add: eval_defs call_defs reject_envelope_def js_def)
  have f2: "trace (snd ?env) = trace loaded @ [z]"
    unfolding z_def by (simp add: eval_defs call_defs reject_envelope_def js_def)
  have f3: "settled z = Inl (Ref 4)"
    unfolding z_def by (simp add: eval_defs call_defs reject_envelope_def js_def)
  have f4: "field (settled_in z) (Ref 4) ''status'' = Str (js ''fail'')"
    unfolding z_def by (simp add: eval_defs call_defs reject_envelope_def js_def)
  note answered_get = call_outcome [OF g, THEN conjunct1, rule_format, OF g1]
  note answered_delete = call_outcome [OF d, THEN conjunct1, rule_format, OF d1]
  obtain e where e: "fst ?bad = Inl e"
    using b1 by blast
  from call_outcome [OF b, THEN conjunct2, THEN conjunct1, rule_format, of e x "Ref 4"]
    e b2 b3 b4 b5 b6 b7
  have "e = Ref 5"
    by simp
  with e have bad: "fst ?bad = Inl (Ref 5)"
    by simp
  obtain e2 where e2: "fst ?rej = Inl e2"
    using c1 by blast
  from call_outcome [OF c, THEN conjunct2, THEN conjunct2, THEN conjunct1, rule_format,
      of e2 y "Ref 4" "Ref 5" "Ref 6"]
    e2 c2 c3 c4 c5 c6 c7 c8 c9 c10 c11 c12 c13
  have "e2 = Ref 6 \<and> field (heap (snd ?rej)) (Ref 6) ''errorCode'' = Num 400
      \<and> field (heap (snd ?rej)) (Ref 6) ''status'' = Str (js ''fail'')"
    by simp
  with e2 have rej: "fst ?rej = Inl (Ref 6)
      \<and> field (heap (snd ?rej)) (Ref 6) ''errorCode'' = Num 400
      \<and> field (heap (snd ?rej)) (Ref 6) ''status'' = Str (js ''fail'')"
    by simp
  obtain e3 where e3: "fst ?env = Inl e3"
    using f1 by blast
  from call_outcome [OF f, THEN conjunct2, THEN conjunct2, THEN conjunct2, rule_format,
      of e3 z "Ref 4"]
    e3 f2 f3 f4
  have "e3 = Ref 4"
    by simp
  with e3 have env: "fst ?env = Inl (Ref 4)"
    by simp
  from answered_get answered_delete bad rej env show ?thesis
    using g1 d1 by simp
qed

text \<open>
  With all operations returning the \<open>data\<close> field and every failure carrying an
  envelope, C3 fails twice. \<open>deleteUser\<close>, answered with the envelope
  \<open>{status: "success", data: {username: "alice"}}\<close>, resolves with the envelope (the
  object at address 5, with the properties \<open>status\<close> and \<open>data\<close>), not with its
  \<open>data\<close> field. And \<open>getUser\<close> with the token \<open>"a b"\<close> does not resolve and
  throws an \<open>Error\<close> that carries no envelope, without any exchange.
\<close>

theorem call_outcome_counterexample:
  "fst (deleteUser (example_env answer_success) (Str (js ''http://host'')) (Str (js ''alice''))
          (Str (js ''token'')) loaded) = Inr (Ref 5)
   \<and> own_props (heap (snd (deleteUser (example_env answer_success) (Str (js ''http://host''))
                              (Str (js ''alice'')) (Str (js ''token'')) loaded))) (Ref 5)
       = [(''status'', Str (js ''success'')), (''data'', Ref 6)]
   \<and> fst (getUser (example_env answer_success) (Str (js ''http://host'')) (Str (js ''alice''))
            (Str (js ''a b'')) loaded) = Inl (Ref 2)
   \<and> own_props (heap (snd (getUser (example_env answer_success) (Str (js ''http://host''))
                              (Str (js ''alice'')) (Str (js ''a b'')) loaded))) (Ref 2)
       = [(''message'', Str (js ''Invalid authToken'')), (''name'', Str (js ''Error''))]
   \<and> trace (snd (getUser (example_env answer_success) (Str (js ''http://host''))
                    (Str (js ''alice'')) (Str (js ''a b'')) loaded)) = []"
  by (simp add: eval_defs call_defs answer_success_def js_def)

subsection \<open>The feed client\<close>

lemma attachAuthTokenToHeader_fresh:
  assumes "attachAuthTokenToHeader t Undefined w = (r, w1)"
  shows "take (length (heap w)) (heap w1) = heap w"
  using assms
  by (auto simp add: attachAuthTokenToHeader_def run_defs split: jsval.splits if_splits)

lemma field_take:
  "take n h' = h \<Longrightarrow> a < length h \<Longrightarrow> field h' (Ref a) k = field h (Ref a) k"
  by (auto simp add: field_def own_props_def)

text \<open>The request of a call of makeRequest: the \<open>params\<close> passed, in a store that extends the caller's.\<close>

lemma makeRequest_sent:
  assumes "makeRequest E URL opts w = (r, w')"
  shows "\<exists>x. trace w' = trace w @ [x] \<and> take (length (heap w)) (sent_in x) = heap w
             \<and> field (sent_in x) (config x) ''params'' = lookup opts ''params''"
proof -
  from makeRequest_run [OF assms] obtain cfg wb outcome new where
    b: "build_config URL opts w = (Inr cfg, wb)" and
    tr: "trace w' = trace w @ [\<lparr>url = URL, config = cfg, sent_in = heap wb,
                                    settled = outcome, settled_in = heap wb @ new\<rparr>]"
    by (elim exE conjE) (rule that)
  from b have "take (length (heap w)) (heap wb) = heap w
      \<and> field (heap wb) cfg ''params'' = lookup opts ''params''"
    by (auto simp add: build_config_def Let_def run_defs nth_append)
  with tr show ?thesis by simp
qed

text \<open>Without an \<open>onlyIds\<close> option, getFeedPosts never sends \<open>onlyPKeys: true\<close>.\<close>

lemma getFeedPosts_sent:
  assumes "lookup opts ''onlyIds'' = Undefined"
  shows "trace (snd (getFeedPosts E baseURL username authToken opts w)) = trace w
       \<or> (\<exists>x. trace (snd (getFeedPosts E baseURL username authToken opts w)) = trace w @ [x]
              \<and> field (sent_in x) (field (sent_in x) (config x) ''params'') ''onlyPKeys''
                  \<noteq> Bool True)"
proof -
  let ?n = "length (heap w)"
  let ?w1 = "w\<lparr>heap := heap w @ [\<lparr>kind = PlainObject, props = []\<rparr>]\<rparr>"
  define cond where
    "cond = truthy (or_else (or_else (or_else (Bool False) (lookup opts ''limit''))
                      (lookup opts ''offset'')) (lookup opts ''sorting''))"
  define params where "params = (if cond then Ref (Suc ?n) else Ref ?n)"
  define w2 where "w2 = (if cond then ?w1\<lparr>heap := heap ?w1 @ [\<lparr>kind = PlainObject,
      props = [(''onlyPKeys'', Bool False), (''limit'', lookup opts ''limit''),
               (''offset'', lookup opts ''offset''), (''sort'', lookup opts ''sorting'')]\<rparr>]\<rparr>
      else ?w1)"
  let ?URL = "to_string baseURL @ js ''/users/'' @ to_string username @ js ''/feed/posts''"
  let ?rest = "seq (attachAuthTokenToHeader authToken Undefined)
        (\<lambda>hs. seq (makeRequest E ?URL [(''headers'', hs), (''params'', params)])
                (\<lambda>response. member response ''data''))"
  have g: "getFeedPosts E baseURL username authToken opts w = ?rest w2"
    using assms
    by (simp add: getFeedPosts_def Let_def default_to_def seq_def new_object_def ret_def
          cond_def params_def w2_def)
  have t2: "trace w2 = trace w"
    by (simp add: w2_def)
  have p: "\<exists>a. params = Ref a \<and> a < length (heap w2)
             \<and> field (heap w2) params ''onlyPKeys'' \<noteq> Bool True"
    by (simp add: params_def w2_def field_def own_props_def nth_append)
  obtain r w3 where a: "attachAuthTokenToHeader authToken Undefined w2 = (r, w3)"
    by fastforce
  from quietD [OF quiet_attachAuthTokenToHeader a] t2 have t3: "trace w3 = trace w"
    by simp
  show ?thesis
  proof (cases r)
    case (Inl e)
    with a g t3 show ?thesis
      by (simp add: seq_def)
  next
    case (Inr hs)
    obtain r4 w4 where
      m: "makeRequest E ?URL [(''headers'', hs), (''params'', params)] w3 = (r4, w4)"
      by fastforce
    from makeRequest_sent [OF m] obtain x where
      x: "trace w4 = trace w3 @ [x]" "take (length (heap w3)) (sent_in x) = heap w3"
         "field (sent_in x) (config x) ''params'' = params"
      by auto
    from p obtain pa where pa: "params = Ref pa" "pa < length (heap w2)"
      "field (heap w2) params ''onlyPKeys'' \<noteq> Bool True"
      by blast
    from attachAuthTokenToHeader_fresh [OF a]
    have f3: "take (length (heap w2)) (heap w3) = heap w2" .
    have l3: "length (heap w2) \<le> length (heap w3)"
      using arg_cong [OF f3, of length] by simp
    from field_take [OF f3 pa(2)] pa have "field (heap w3) params ''onlyPKeys'' \<noteq> Bool True"
      by simp
    moreover from field_take [OF x(2), of pa] pa l3
    have "field (sent_in x) params ''onlyPKeys'' = field (heap w3) params ''onlyPKeys''"
      by simp
    ultimately have
      "field (sent_in x) (field (sent_in x) (config x) ''params'') ''onlyPKeys'' \<noteq> Bool True"
      using x(3) by simp
    moreover have "trace (snd (?rest w2)) = trace w4"
      using a Inr m by (auto simp add: seq_def quiet_run split: sum.splits)
    ultimately show ?thesis
      using g x(1) t3 by auto
  qed
qed

text \<open>
  C10. The \<open>getFeedPosts\<close> method of the client made by \<open>NewFeedServiceClient\<close>
  does not pass its \<open>onlyIds\<close> option on: for every environment, client, username,
  token, limit, offset and sorting, and in every world, the call with \<open>onlyIds\<close> true
  comes to what the call with \<open>onlyIds\<close> false and the call without \<open>onlyIds\<close>
  come to: the same result, the same store and the same exchanges (URL, configuration
  with its headers and query parameters, and the way the transport settled). If the call
  with \<open>onlyIds\<close> true issues a request at all, the query parameters of that request
  do not have \<open>onlyPKeys\<close> true.
\<close>

theorem client_getFeedPosts_ignores_onlyIds:
  "client_getFeedPosts E client username token
     [(''limit'', limit), (''offset'', offset), (''sorting'', sorting), (''onlyIds'', Bool True)] w
   = client_getFeedPosts E client username token
     [(''limit'', limit), (''offset'', offset), (''sorting'', sorting), (''onlyIds'', Bool False)] w
   \<and> client_getFeedPosts E client username token
     [(''limit'', limit), (''offset'', offset), (''sorting'', sorting), (''onlyIds'', Bool True)] w
   = client_getFeedPosts E client username token
     [(''limit'', limit), (''offset'', offset), (''sorting'', sorting)] w
   \<and> (trace (snd (client_getFeedPosts E client username token
                    [(''limit'', limit), (''offset'', offset), (''sorting'', sorting),
                     (''onlyIds'', Bool True)] w)) = trace w
       \<or> (\<exists>x. trace (snd (client_getFeedPosts E client username token
                    [(''limit'', limit), (''offset'', offset), (''sorting'', sorting),
                     (''onlyIds'', Bool True)] w)) = trace w @ [x]
              \<and> field (sent_in x) (field (sent_in x) (config x) ''params'') ''onlyPKeys''
                  \<noteq> Bool True))"
proof -
  let ?opts = "[(''limit'', limit), (''offset'', offset), (''sorting'', sorting)]"
  have "trace (snd (client_getFeedPosts E client username token
                    (?opts @ [(''onlyIds'', Bool True)]) w)) = trace w
       \<or> (\<exists>x. trace (snd (client_getFeedPosts E client username token
                    (?opts @ [(''onlyIds'', Bool True)]) w)) = trace w @ [x]
              \<and> field (sent_in x) (field (sent_in x) (config x) ''params'') ''onlyPKeys''
                  \<noteq> Bool True)"
  proof (cases "member client ''baseURL'' w")
    case (Pair r w1)
    from quietD [OF quiet_member Pair] have t: "trace w1 = trace w" .
    show ?thesis
    proof (cases r)
      case (Inl e)
      with Pair t show ?thesis
        by (simp add: client_getFeedPosts_def Let_def seq_def)
    next
      case (Inr baseURL)
      have "lookup ?opts ''onlyIds'' = Undefined"
        by simp
      from getFeedPosts_sent [OF this, of E baseURL username token w1] Pair Inr t
      show ?thesis
        by (simp add: client_getFeedPosts_def Let_def seq_def)
    qed
  qed
  then show ?thesis
    by (simp add: client_getFeedPosts_def Let_def)
qed

lemmas feed_defs = client_getFeedPosts_def getFeedPosts_def NewFeedServiceClient_def
  attachAuthTokenToHeader_def or_else_def to_string_def

text \<open>
  At the client for \<open>http://host\<close>, made in the world right after the module was
  loaded: with \<open>onlyIds\<close> true, the method sends the query parameters with
  \<open>onlyPKeys\<close> false, where the exported function \<open>getFeedPosts\<close> sends them with
  \<open>onlyPKeys\<close> true.
\<close>

theorem client_getFeedPosts_ignores_onlyIds_witness:
  "fst (NewFeedServiceClient (Str (js ''http://host'')) loaded) = Inr (Ref 1)
   \<and> client_getFeedPosts (example_env answer_success) (Ref 1) (Str (js ''alice'')) Undefined
       [(''limit'', Num 10), (''offset'', Undefined), (''sorting'', Undefined), (''onlyIds'', Bool True)]
       (snd (NewFeedServiceClient (Str (js ''http://host'')) loaded))
     = client_getFeedPosts (example_env answer_success) (Ref 1) (Str (js ''alice'')) Undefined
       [(''limit'', Num 10), (''offset'', Undefined), (''sorting'', Undefined)]
       (snd (NewFeedServiceClient (Str (js ''http://host'')) loaded))
   \<and> field
        (sent_in (last (trace (snd (client_getFeedPosts (example_env answer_success) (Ref 1)
           (Str (js ''alice'')) Undefined
           [(''limit'', Num 10), (''offset'', Undefined), (''sorting'', Undefined),
            (''onlyIds'', Bool True)]
           (snd (NewFeedServiceClient (Str (js ''http://host'')) loaded)))))))
        (Ref 3) ''onlyPKeys'' = Bool False
   \<and> field
        (sent_in (last (trace (snd (getFeedPosts (example_env answer_success)
           (Str (js ''http://host'')) (Str (js ''alice'')) Undefined
           [(''limit'', Num 10), (''offset'', Undefined), (''sorting'', Undefined),
            (''onlyIds'', Bool True)]
           (snd (NewFeedServiceClient (Str (js ''http://host'')) loaded)))))))
        (Ref 3) ''onlyPKeys'' = Bool True"
proof -
  have made: "fst (NewFeedServiceClient (Str (js ''http://host'')) loaded) = Inr (Ref 1)"
    by (simp add: NewFeedServiceClient_def new_object_def loaded_def load_module_def new_error_def)
  have sent: "field
        (sent_in (last (trace (snd (client_getFeedPosts (example_env answer_success) (Ref 1)
           (Str (js ''alice'')) Undefined
           [(''limit'', Num 10), (''offset'', Undefined), (''sorting'', Undefined),
            (''onlyIds'', Bool True)]
           (snd (NewFeedServiceClient (Str (js ''http://host'')) loaded)))))))
        (Ref 3) ''onlyPKeys'' = Bool False"
    by (simp add: eval_defs feed_defs answer_success_def js_def)
  have direct: "field
        (sent_in (last (trace (snd (getFeedPosts (example_env answer_success)
           (Str (js ''http://host'')) (Str (js ''alice'')) Undefined
           [(''limit'', Num 10), (''offset'', Undefined), (''sorting'', Undefined),
            (''onlyIds'', Bool True)]
           (snd (NewFeedServiceClient (Str (js ''http://host'')) loaded)))))))
        (Ref 3) ''onlyPKeys'' = Bool True"
    by (simp add: eval_defs feed_defs answer_success_def js_def)
  from made sent direct show ?thesis
    using client_getFeedPosts_ignores_onlyIds [of "example_env answer_success" "Ref 1"
      "Str (js ''alice'')" Undefined "Num 10" Undefined Undefined
      "snd (NewFeedServiceClient (Str (js ''http://host'')) loaded)"]
    by blast
qed

end
